theory Spec2Isabelle
  imports Complex_Main
begin

section \<open>The Plex event-stream client (services/mediaServer/plex/eventSource.ts)\<close>

text \<open>
  A shallow embedding of the class \<open>PlexEventSource\<close>. The object's private fields are a
  record; every method and every callback the class registers is a function from client
  to client. What the class reads from its surroundings is an explicit input:
  \<^item> \<open>SSE_CONFIG\<close> is imported from the package \<open>@tracearr/shared\<close>; its five constants are
    the record \<open>config\<close>, a parameter of every function that reads one of them;
  \<^item> \<open>new Date()\<close>, \<open>Math.random()\<close>, the outcome of the dynamic \<open>import('eventsource')\<close>
    and an exception raised inside the guarded block of \<open>connect\<close> are the record \<open>env\<close>;
  \<^item> \<open>JSON.parse\<close> is a parameter \<open>parse\<close> returning \<open>None\<close> where it throws
    \<open>SyntaxError\<close>.
  What the class does to its surroundings is recorded in two lists kept in the record:
  \<open>emitted\<close>, the calls of \<open>this.emit\<close> in order, and \<open>console\<close>, the lines written with
  \<open>console.log/warn/error\<close> in order. Timers are kept as the time at which they are due;
  arithmetic on delays and times is over the reals.
\<close>

subsection \<open>Values\<close>

datatype SSEConnectionState = Disconnected | Connecting | Connected | Reconnecting | Fallback

record config =
  MAX_RETRIES :: nat
  INITIAL_RETRY_DELAY_MS :: real
  RETRY_MULTIPLIER :: real
  MAX_RETRY_DELAY_MS :: real
  HEARTBEAT_TIMEOUT_MS :: real

text \<open>JavaScript values as far as \<open>handleMessage\<close> inspects them. An object is the list of
  its own properties, each name once (\<open>JSON.parse\<close> has already resolved duplicate keys).\<close>

datatype json =
    JUndefined
  | JNull
  | JBool bool
  | JNum real
  | JStr string
  | JArr "json list"
  | JObj "(string \<times> json) list"

text \<open>What \<open>handleError\<close> can be handed: an \<open>Error\<close> instance with its message, some other
  object with (stringified) \<open>message\<close> and \<open>status\<close> properties when present, or any other
  value.\<close>

datatype thrown =
    ErrorObject string
  | PlainObject "string option" "string option"
  | OtherValue

datatype emitted_event =
    SessionPlaying json
  | SessionPaused json
  | SessionStopped json
  | ConnectionStateEv SSEConnectionState
  | ConnectionErrorEv string

datatype log_line =
    LogConnecting
  | LogIgnoringOnopen SSEConnectionState
  | LogConnected
  | LogDisconnecting
  | LogParseFailed
  | LogError string
  | LogMaxRetries
  | LogReconnecting real nat
  | LogHeartbeatTimeout
  | LogConnectionTimeout

text \<open>The transport object as the client configures it: whether \<open>onopen\<close> and \<open>onerror\<close>
  are set, and the event names that have a listener added.\<close>

record transport =
  onopen :: bool
  onerror :: bool
  listeners :: "string list"

datatype import_outcome = ImportRejected thrown | ImportResolved bool

text \<open>\<open>ImportResolved b\<close>: the import resolves and \<open>module.EventSource\<close> is a constructor
  (\<open>b\<close>) or is missing (\<open>\<not> b\<close>). Inside the guarded block of \<open>connect\<close>,
  \<open>prepare_throws\<close> is an exception raised while the URL and the headers are built
  (\<open>encodeURIComponent\<close>, \<open>plexHeaders\<close>), \<open>construct_throws\<close> one raised by the constructor
  of the transport.\<close>

record env =
  now :: real
  math_random :: real
  import_result :: import_outcome
  prepare_throws :: "thrown option"
  construct_throws :: "thrown option"

text \<open>The fields of the class. \<open>EventSourceClass\<close> is the module-level variable, kept here
  because the model follows one instance: \<open>True\<close> when it holds a constructor. A listener
  field is \<open>True\<close> when it holds a closure. A timer field holds the time at which the
  pending timeout is due; the class uses a timer handle only to clear it, so a handle
  whose timeout has fired is not distinguished from \<open>null\<close>. The error kept in \<open>lastError\<close>
  is represented by its message, the only part \<open>getStatus\<close> reads.\<close>

record client =
  EventSourceClass :: bool
  serverId :: string
  serverName :: string
  eventSource :: "transport option"
  state :: SSEConnectionState
  reconnectAttempts :: nat
  reconnectTimer :: "real option"
  heartbeatTimer :: "real option"
  connectionTimer :: "real option"
  lastEventTime :: "real option"
  connectedAt :: "real option"
  lastError :: "string option"
  messageListener :: bool
  playingListener :: bool
  notificationListener :: bool
  pingListener :: bool
  emitted :: "emitted_event list"
  console :: "log_line list"

record status =
  st_serverId :: string
  st_serverName :: string
  st_state :: SSEConnectionState
  st_connectedAt :: "real option"
  st_lastEventAt :: "real option"
  st_reconnectAttempts :: nat
  st_error :: "string option"

subsection \<open>Construction, getState, getStatus\<close>

definition PlexEventSource_new :: "bool \<Rightarrow> string \<Rightarrow> string \<Rightarrow> client" where
  "PlexEventSource_new loaded sid sname =
     \<lparr> EventSourceClass = loaded, serverId = sid, serverName = sname,
       eventSource = None, state = Disconnected, reconnectAttempts = 0,
       reconnectTimer = None, heartbeatTimer = None, connectionTimer = None,
       lastEventTime = None, connectedAt = None, lastError = None,
       messageListener = False, playingListener = False,
       notificationListener = False, pingListener = False,
       emitted = [], console = [] \<rparr>"

definition getState :: "client \<Rightarrow> SSEConnectionState" where
  "getState s = state s"

definition getStatus :: "client \<Rightarrow> status" where
  "getStatus s =
     \<lparr> st_serverId = serverId s, st_serverName = serverName s, st_state = state s,
       st_connectedAt = connectedAt s, st_lastEventAt = lastEventTime s,
       st_reconnectAttempts = reconnectAttempts s, st_error = lastError s \<rparr>"

subsection \<open>Emission, logging, state changes, timers\<close>

definition emit :: "emitted_event \<Rightarrow> client \<Rightarrow> client" where
  "emit e s = s\<lparr>emitted := emitted s @ [e]\<rparr>"

definition log :: "log_line \<Rightarrow> client \<Rightarrow> client" where
  "log l s = s\<lparr>console := console s @ [l]\<rparr>"

definition setState :: "SSEConnectionState \<Rightarrow> client \<Rightarrow> client" where
  "setState st s =
     (if state s \<noteq> st then emit (ConnectionStateEv st) (s\<lparr>state := st\<rparr>) else s)"

definition clearConnectionTimeout :: "client \<Rightarrow> client" where
  "clearConnectionTimeout s =
     (if connectionTimer s \<noteq> None then s\<lparr>connectionTimer := None\<rparr> else s)"

definition clearTimers :: "client \<Rightarrow> client" where
  "clearTimers s =
     (let s1 = (if reconnectTimer s \<noteq> None then s\<lparr>reconnectTimer := None\<rparr> else s);
          s2 = (if heartbeatTimer s1 \<noteq> None then s1\<lparr>heartbeatTimer := None\<rparr> else s1)
      in clearConnectionTimeout s2)"

definition cleanupEventSource :: "client \<Rightarrow> client" where
  "cleanupEventSource s =
     (case eventSource s of
        None \<Rightarrow> s
      | Some tr \<Rightarrow>
          s\<lparr>eventSource := None, messageListener := False, playingListener := False,
            notificationListener := False, pingListener := False\<rparr>)"

subsection \<open>Backoff\<close>

definition baseDelay :: "config \<Rightarrow> nat \<Rightarrow> real" where
  "baseDelay cfg attempts =
     min (INITIAL_RETRY_DELAY_MS cfg * RETRY_MULTIPLIER cfg ^ (attempts - 1))
         (MAX_RETRY_DELAY_MS cfg)"

definition reconnectDelay :: "config \<Rightarrow> nat \<Rightarrow> real \<Rightarrow> real" where
  "reconnectDelay cfg attempts rnd = baseDelay cfg attempts + rnd * 1000"

definition scheduleReconnect :: "config \<Rightarrow> env \<Rightarrow> client \<Rightarrow> client" where
  "scheduleReconnect cfg ev s =
     (if reconnectAttempts s \<ge> MAX_RETRIES cfg then setState Fallback (log LogMaxRetries s)
      else
        let s1 = setState Reconnecting s;
            s2 = s1\<lparr>reconnectAttempts := reconnectAttempts s1 + 1\<rparr>;
            delay = reconnectDelay cfg (reconnectAttempts s2) (math_random ev);
            s3 = log (LogReconnecting delay (reconnectAttempts s2)) s2
        in s3\<lparr>reconnectTimer := Some (now ev + delay)\<rparr>)"

subsection \<open>The error path\<close>

definition errorMessage :: "thrown \<Rightarrow> string" where
  "errorMessage e =
     (case e of
        ErrorObject m \<Rightarrow> m
      | PlainObject m st \<Rightarrow>
          (case m of Some x \<Rightarrow> x | None \<Rightarrow> ''Connection error'') @
          (case st of Some y \<Rightarrow> '' (status: '' @ y @ '')'' | None \<Rightarrow> [])
      | OtherValue \<Rightarrow> ''Connection error'')"

definition handleError :: "config \<Rightarrow> env \<Rightarrow> thrown \<Rightarrow> client \<Rightarrow> client" where
  "handleError cfg ev e s =
     (let s1 = clearTimers s;
          msg = errorMessage e;
          s2 = s1\<lparr>lastError := Some msg\<rparr>;
          s3 = log (LogError msg) s2;
          s4 = emit (ConnectionErrorEv msg) s3;
          s5 = cleanupEventSource s4
      in scheduleReconnect cfg ev s5)"

subsection \<open>Heartbeat and connection timeout\<close>

definition resetHeartbeatMonitor :: "config \<Rightarrow> env \<Rightarrow> client \<Rightarrow> client" where
  "resetHeartbeatMonitor cfg ev s =
     s\<lparr>heartbeatTimer := Some (now ev + HEARTBEAT_TIMEOUT_MS cfg)\<rparr>"

definition startHeartbeatMonitor :: "config \<Rightarrow> env \<Rightarrow> client \<Rightarrow> client" where
  "startHeartbeatMonitor cfg ev s = resetHeartbeatMonitor cfg ev s"

definition heartbeatTimerCallback :: "config \<Rightarrow> env \<Rightarrow> client \<Rightarrow> client" where
  "heartbeatTimerCallback cfg ev s =
     (if state s = Disconnected then s
      else handleError cfg ev (ErrorObject ''Heartbeat timeout'') (log LogHeartbeatTimeout s))"

definition connectionTimerCallback :: "config \<Rightarrow> env \<Rightarrow> client \<Rightarrow> client" where
  "connectionTimerCallback cfg ev s =
     (if state s = Disconnected then s
      else handleError cfg ev (ErrorObject ''Connection timeout'') (log LogConnectionTimeout s))"

definition startConnectionTimeout :: "config \<Rightarrow> env \<Rightarrow> client \<Rightarrow> client" where
  "startConnectionTimeout cfg ev s =
     (clearConnectionTimeout s)\<lparr>connectionTimer := Some (now ev + HEARTBEAT_TIMEOUT_MS cfg)\<rparr>"

subsection \<open>connect, its callbacks, disconnect\<close>

definition onopenCallback :: "config \<Rightarrow> env \<Rightarrow> client \<Rightarrow> client" where
  "onopenCallback cfg ev s =
     (if state s \<noteq> Connecting then log (LogIgnoringOnopen (state s)) s
      else
        let s1 = clearConnectionTimeout s;
            s2 = log LogConnected s1;
            s3 = setState Connected s2;
            s4 = s3\<lparr>connectedAt := Some (now ev), reconnectAttempts := 0, lastError := None\<rparr>
        in startHeartbeatMonitor cfg ev s4)"

definition onerrorCallback :: "config \<Rightarrow> env \<Rightarrow> thrown \<Rightarrow> client \<Rightarrow> client" where
  "onerrorCallback cfg ev e s = handleError cfg ev e s"

text \<open>The guarded block of \<open>connect\<close>. An exception in it is caught and handed to
  \<open>handleError\<close>; calling \<open>new\<close> on a missing constructor raises \<open>TypeError\<close>. Wherever in
  the block the exception is raised, \<open>handleError\<close> clears the timers and the transport
  again, so the block is modelled as raising no later than the constructor.\<close>

definition connectBlock :: "config \<Rightarrow> env \<Rightarrow> client \<Rightarrow> client" where
  "connectBlock cfg ev s =
     (case prepare_throws ev of
        Some e \<Rightarrow> handleError cfg ev e s
      | None \<Rightarrow>
          let s1 = log LogConnecting s in
          (case (if EventSourceClass s1 then construct_throws ev
                 else Some (ErrorObject ''EventSourceClass is not a constructor'')) of
             Some e \<Rightarrow> handleError cfg ev e s1
           | None \<Rightarrow>
               let s2 = s1\<lparr>eventSource := Some \<lparr>onopen = False, onerror = False, listeners = []\<rparr>\<rparr>;
                   s3 = startConnectionTimeout cfg ev s2;
                   s4 = s3\<lparr>messageListener := True, playingListener := True,
                          notificationListener := True, pingListener := True\<rparr>
               in s4\<lparr>eventSource :=
                       Some \<lparr>onopen = True, onerror = True,
                             listeners = [''message'', ''playing'', ''notification'', ''ping'']\<rparr>\<rparr>))"

text \<open>\<open>connectLoaded\<close> is \<open>connect\<close> from its guard on; \<open>connect\<close> runs the lazy
  import first, which is outside the guarded block: \<open>Inl\<close> is a rejected promise.\<close>

definition connectLoaded :: "config \<Rightarrow> env \<Rightarrow> client \<Rightarrow> client" where
  "connectLoaded cfg ev s =
     (if state s = Connected \<or> state s = Connecting then s
      else connectBlock cfg ev (clearTimers (setState Connecting s)))"

definition connect :: "config \<Rightarrow> env \<Rightarrow> client \<Rightarrow> thrown + client" where
  "connect cfg ev s =
     (if \<not> EventSourceClass s then
        (case import_result ev of
           ImportRejected e \<Rightarrow> Inl e
         | ImportResolved b \<Rightarrow> Inr (connectLoaded cfg ev (s\<lparr>EventSourceClass := b\<rparr>)))
      else Inr (connectLoaded cfg ev s))"

definition disconnect :: "client \<Rightarrow> client" where
  "disconnect s =
     (let s1 = log LogDisconnecting s;
          s2 = clearTimers s1;
          s3 = cleanupEventSource s2;
          s4 = setState Disconnected s3
      in s4\<lparr>connectedAt := None\<rparr>)"

text \<open>The callback of the reconnect timer; \<open>void this.connect()\<close> drops the promise, so a
  rejection leaves the client as it is.\<close>

definition reconnectTimerCallback :: "config \<Rightarrow> env \<Rightarrow> client \<Rightarrow> client" where
  "reconnectTimerCallback cfg ev s =
     (if state s = Disconnected then s
      else (case connect cfg ev s of Inl e \<Rightarrow> s | Inr s' \<Rightarrow> s'))"

subsection \<open>Messages\<close>

text \<open>Property access, the \<open>in\<close> operator and truthiness, for the four property names the
  client uses (none of them is \<open>length\<close>, an array index or a name found on a prototype).
  \<open>None\<close> is a raised \<open>TypeError\<close>.\<close>

fun getProp :: "string \<Rightarrow> json \<Rightarrow> json option" where
  "getProp k JUndefined = None"
| "getProp k JNull = None"
| "getProp k (JObj kvs) = Some (case map_of kvs k of None \<Rightarrow> JUndefined | Some v \<Rightarrow> v)"
| "getProp k v = Some JUndefined"

fun inOperator :: "string \<Rightarrow> json \<Rightarrow> bool option" where
  "inOperator k (JObj kvs) = Some (map_of kvs k \<noteq> None)"
| "inOperator k (JArr xs) = Some False"
| "inOperator k v = None"

fun truthy :: "json \<Rightarrow> bool" where
  "truthy JUndefined = False"
| "truthy JNull = False"
| "truthy (JBool b) = b"
| "truthy (JNum x) = (x \<noteq> 0)"
| "truthy (JStr str) = (str \<noteq> [])"
| "truthy (JArr xs) = True"
| "truthy (JObj kvs) = True"

definition optionalChain :: "string \<Rightarrow> json \<Rightarrow> json option" where
  "optionalChain k v = (if v = JNull \<or> v = JUndefined then Some JUndefined else getProp k v)"

text \<open>In the three functions below \<open>Inl s\<close> is an exception raised with the client left
  as \<open>s\<close>, \<open>Inr s\<close> a normal return.\<close>

definition handlePlaySessionNotification :: "json \<Rightarrow> json \<Rightarrow> client \<Rightarrow> client + client" where
  "handlePlaySessionNotification notification eventType s =
     (case getProp ''state'' notification of
        None \<Rightarrow> Inl s
      | Some st \<Rightarrow>
          Inr (if st = JStr ''playing'' then emit (SessionPlaying notification) s
               else if st = JStr ''paused'' then emit (SessionPaused notification) s
               else if st = JStr ''stopped'' then emit (SessionStopped notification) s
               else if st = JStr ''buffering'' then emit (SessionPlaying notification) s
               else s))"

fun forNotifications :: "json list \<Rightarrow> json \<Rightarrow> client \<Rightarrow> client + client" where
  "forNotifications [] container s = Inr s"
| "forNotifications (n # ns) container s =
     (case getProp ''type'' container of
        None \<Rightarrow> Inl s
      | Some ty \<Rightarrow>
          (case handlePlaySessionNotification n ty s of
             Inl s' \<Rightarrow> Inl s'
           | Inr s' \<Rightarrow> forNotifications ns container s'))"

definition handleParsed :: "json \<Rightarrow> client \<Rightarrow> client + client" where
  "handleParsed data s =
     (case inOperator ''PlaySessionStateNotification'' data of
        None \<Rightarrow> Inl s
      | Some direct \<Rightarrow>
          (case (if direct then inOperator ''NotificationContainer'' data else Some True) of
             None \<Rightarrow> Inl s
           | Some wrapped \<Rightarrow>
               if direct \<and> \<not> wrapped then
                 (case getProp ''PlaySessionStateNotification'' data of
                    None \<Rightarrow> Inl s
                  | Some notification \<Rightarrow>
                      handlePlaySessionNotification notification (JStr ''playing'') s)
               else
                 (case getProp ''NotificationContainer'' data of
                    None \<Rightarrow> Inl s
                  | Some container \<Rightarrow>
                      (case optionalChain ''PlaySessionStateNotification'' container of
                         None \<Rightarrow> Inl s
                       | Some x \<Rightarrow>
                           if truthy x then
                             forNotifications (case x of JArr xs \<Rightarrow> xs | _ \<Rightarrow> [x]) container s
                           else Inr s))))"

definition handleMessage ::
  "config \<Rightarrow> (string \<Rightarrow> json option) \<Rightarrow> env \<Rightarrow> string \<Rightarrow> client \<Rightarrow> client" where
  "handleMessage cfg parse ev data s =
     (let s1 = s\<lparr>lastEventTime := Some (now ev)\<rparr>;
          s2 = resetHeartbeatMonitor cfg ev s1
      in if data = [] then s2
         else (case parse data of
                 None \<Rightarrow> log LogParseFailed s2
               | Some v \<Rightarrow>
                   (case handleParsed v s2 of
                      Inl s' \<Rightarrow> log LogParseFailed s'
                    | Inr s' \<Rightarrow> s')))"

subsection \<open>Runs\<close>

text \<open>What can happen to a client: a call of a public operation, a callback of the
  transport, or a timer falling due. The transport calls only what is registered on it,
  and \<open>cleanupEventSource\<close> unregisters everything before the client drops the transport,
  so a transport callback reaches the client only through the transport it holds. A
  timer callback runs only when its timer is pending and due.\<close>

datatype event =
    CallConnect
  | CallDisconnect
  | TransportOpen
  | TransportError thrown
  | TransportEvent string string
  | ReconnectTimerFires
  | HeartbeatTimerFires
  | ConnectionTimerFires

fun step :: "config \<Rightarrow> (string \<Rightarrow> json option) \<Rightarrow> env \<times> event \<Rightarrow> client \<Rightarrow> client" where
  "step cfg parse (ev, CallConnect) s =
     (case connect cfg ev s of Inl e \<Rightarrow> s | Inr s' \<Rightarrow> s')"
| "step cfg parse (ev, CallDisconnect) s = disconnect s"
| "step cfg parse (ev, TransportOpen) s =
     (case eventSource s of
        None \<Rightarrow> s
      | Some tr \<Rightarrow> if onopen tr then onopenCallback cfg ev s else s)"
| "step cfg parse (ev, TransportError e) s =
     (case eventSource s of
        None \<Rightarrow> s
      | Some tr \<Rightarrow> if onerror tr then onerrorCallback cfg ev e s else s)"
| "step cfg parse (ev, TransportEvent name data) s =
     (case eventSource s of
        None \<Rightarrow> s
      | Some tr \<Rightarrow>
          if name \<notin> set (listeners tr) then s
          else if name = ''ping'' then resetHeartbeatMonitor cfg ev s
          else if name = ''message'' \<or> name = ''playing'' \<or> name = ''notification''
            then handleMessage cfg parse ev data s
          else s)"
| "step cfg parse (ev, ReconnectTimerFires) s =
     (case reconnectTimer s of
        None \<Rightarrow> s
      | Some due \<Rightarrow>
          if due \<le> now ev then reconnectTimerCallback cfg ev (s\<lparr>reconnectTimer := None\<rparr>)
          else s)"
| "step cfg parse (ev, HeartbeatTimerFires) s =
     (case heartbeatTimer s of
        None \<Rightarrow> s
      | Some due \<Rightarrow>
          if due \<le> now ev then heartbeatTimerCallback cfg ev (s\<lparr>heartbeatTimer := None\<rparr>)
          else s)"
| "step cfg parse (ev, ConnectionTimerFires) s =
     (case connectionTimer s of
        None \<Rightarrow> s
      | Some due \<Rightarrow>
          if due \<le> now ev then connectionTimerCallback cfg ev (s\<lparr>connectionTimer := None\<rparr>)
          else s)"

fun run :: "config \<Rightarrow> (string \<Rightarrow> json option) \<Rightarrow> (env \<times> event) list \<Rightarrow> client \<Rightarrow> client" where
  "run cfg parse [] s = s"
| "run cfg parse (x # xs) s = run cfg parse xs (step cfg parse x s)"

subsection \<open>Observations on the two output lists\<close>

fun isConnectionError :: "emitted_event \<Rightarrow> bool" where
  "isConnectionError (ConnectionErrorEv m) = True"
| "isConnectionError e = False"

fun isSessionEvent :: "emitted_event \<Rightarrow> bool" where
  "isSessionEvent (SessionPlaying n) = True"
| "isSessionEvent (SessionPaused n) = True"
| "isSessionEvent (SessionStopped n) = True"
| "isSessionEvent e = False"

fun isReconnectLog :: "log_line \<Rightarrow> bool" where
  "isReconnectLog (LogReconnecting d n) = True"
| "isReconnectLog l = False"

text \<open>\<open>errorCount\<close>: how often the error path has run (\<open>handleError\<close> is the only emitter
  of \<open>connection:error\<close> and emits it once). \<open>connectedCount\<close>: how often the client has
  become \<open>connected\<close>. \<open>reconnectsScheduled\<close>: how often \<open>scheduleReconnect\<close> has set a
  reconnect timer (it logs one "Reconnecting to ..." line with each).\<close>

definition errorCount :: "client \<Rightarrow> nat" where
  "errorCount s = length (filter isConnectionError (emitted s))"

definition connectedCount :: "client \<Rightarrow> nat" where
  "connectedCount s = length (filter (\<lambda>e. e = ConnectionStateEv Connected) (emitted s))"

definition reconnectsScheduled :: "client \<Rightarrow> nat" where
  "reconnectsScheduled s = length (filter isReconnectLog (console s))"

text \<open>The notification mapping in the words of the specification: the event a
  notification gives rise to, read off its \<open>state\<close> field alone.\<close>

definition specEvents :: "json \<Rightarrow> emitted_event list" where
  "specEvents n =
     (case getProp ''state'' n of
        Some (JStr st) \<Rightarrow>
          if st = ''playing'' then [SessionPlaying n]
          else if st = ''paused'' then [SessionPaused n]
          else if st = ''stopped'' then [SessionStopped n]
          else if st = ''buffering'' then [SessionPlaying n]
          else []
      | _ \<Rightarrow> [])"

text \<open>Received messages spaced under the heartbeat timeout: \<open>prev\<close> is the time of the
  previous received message (or of arming the monitor); every event of the run happens
  less than \<open>H\<close> after it. \<open>quietEvent\<close>: a message on one of the four channels or a
  timer coming up, that is, no transport error and no call from outside.\<close>

fun received :: "event \<Rightarrow> bool" where
  "received (TransportEvent name data) = True"
| "received e = False"

fun quietEvent :: "event \<Rightarrow> bool" where
  "quietEvent (TransportEvent name data) =
     (name = ''ping'' \<or> name = ''message'' \<or> name = ''playing'' \<or> name = ''notification'')"
| "quietEvent ReconnectTimerFires = True"
| "quietEvent HeartbeatTimerFires = True"
| "quietEvent ConnectionTimerFires = True"
| "quietEvent e = False"

fun spacedUnder :: "real \<Rightarrow> real \<Rightarrow> (env \<times> event) list \<Rightarrow> bool" where
  "spacedUnder H prev [] = True"
| "spacedUnder H prev ((ev, e) # xs) =
     (now ev - prev < H \<and> quietEvent e \<and> spacedUnder H (if received e then now ev else prev) xs)"

text \<open>\<open>sessionsAdded s s'\<close>: \<open>s'\<close> is \<open>s\<close> with session events appended to \<open>emitted\<close>.\<close>

definition sessionsAdded :: "client \<Rightarrow> client \<Rightarrow> bool" where
  "sessionsAdded s s' = (\<exists>es. s' = s\<lparr>emitted := emitted s @ es\<rparr> \<and> list_all isSessionEvent es)"

text \<open>\<open>sameCounters s' s\<close>: the two clients agree on the attempt counter and on the three
  counts read off the output lists.\<close>

definition sameCounters :: "client \<Rightarrow> client \<Rightarrow> bool" where
  "sameCounters s' s =
     (errorCount s' = errorCount s \<and> connectedCount s' = connectedCount s
      \<and> reconnectsScheduled s' = reconnectsScheduled s
      \<and> reconnectAttempts s' = reconnectAttempts s)"

text \<open>A client that is connected or connecting has the transport class loaded.\<close>

definition loadedWhenOpen :: "client \<Rightarrow> bool" where
  "loadedWhenOpen s = (state s = Connected \<or> state s = Connecting \<longrightarrow> EventSourceClass s)"

text \<open>The exception the guarded block of \<open>connect\<close> ends with, if any, given whether the
  transport class is loaded.\<close>

definition raisedInBlock :: "env \<Rightarrow> bool \<Rightarrow> thrown option" where
  "raisedInBlock ev loaded =
     (case prepare_throws ev of
        Some e \<Rightarrow> Some e
      | None \<Rightarrow>
          if loaded then construct_throws ev
          else Some (ErrorObject ''EventSourceClass is not a constructor''))"

subsection \<open>The delay in double precision\<close>

text \<open>
  The client above keeps delays and times as reals. The arithmetic of \<open>scheduleReconnect\<close>
  (\<open>Math.min\<close>, \<open>*\<close>, \<open>Math.pow\<close>, \<open>+\<close>) is on JavaScript numbers, that is on IEEE 754
  doubles; this subsection does it on doubles. A \<open>number\<close> is a finite double (by its
  real value; the sign of zero is not kept), an infinity or \<open>NaN\<close>. What the platform
  contributes is the record \<open>arith\<close>: \<open>fl\<close> rounds the exact result of an operation on
  finite operands to a number, and \<open>math_pow\<close> is \<open>Math.pow\<close> on a finite base and a
  non-negative integer exponent (the language leaves its accuracy to the implementation).
  The constants of \<open>SSE_CONFIG\<close> and the draw of \<open>Math.random()\<close> are finite doubles.
\<close>

datatype number = Finite real | PosInf | NegInf | NaN

record arith =
  fl :: "real \<Rightarrow> number"
  math_pow :: "real \<Rightarrow> nat \<Rightarrow> number"

fun numMul :: "arith \<Rightarrow> number \<Rightarrow> number \<Rightarrow> number" where
  "numMul ar NaN b = NaN"
| "numMul ar a NaN = NaN"
| "numMul ar (Finite x) (Finite y) = fl ar (x * y)"
| "numMul ar (Finite x) PosInf = (if x = 0 then NaN else if 0 < x then PosInf else NegInf)"
| "numMul ar (Finite x) NegInf = (if x = 0 then NaN else if 0 < x then NegInf else PosInf)"
| "numMul ar PosInf (Finite y) = (if y = 0 then NaN else if 0 < y then PosInf else NegInf)"
| "numMul ar NegInf (Finite y) = (if y = 0 then NaN else if 0 < y then NegInf else PosInf)"
| "numMul ar PosInf PosInf = PosInf"
| "numMul ar PosInf NegInf = NegInf"
| "numMul ar NegInf PosInf = NegInf"
| "numMul ar NegInf NegInf = PosInf"

fun numAdd :: "arith \<Rightarrow> number \<Rightarrow> number \<Rightarrow> number" where
  "numAdd ar NaN b = NaN"
| "numAdd ar a NaN = NaN"
| "numAdd ar (Finite x) (Finite y) = fl ar (x + y)"
| "numAdd ar PosInf NegInf = NaN"
| "numAdd ar NegInf PosInf = NaN"
| "numAdd ar PosInf b = PosInf"
| "numAdd ar a PosInf = PosInf"
| "numAdd ar NegInf b = NegInf"
| "numAdd ar a NegInf = NegInf"

text \<open>\<open>Math.min\<close> of two numbers, and the comparisons \<open><=\<close> and \<open><\<close>, which are false
  whenever an operand is \<open>NaN\<close>.\<close>

fun numMin :: "number \<Rightarrow> number \<Rightarrow> number" where
  "numMin NaN b = NaN"
| "numMin a NaN = NaN"
| "numMin NegInf b = NegInf"
| "numMin a NegInf = NegInf"
| "numMin PosInf b = b"
| "numMin a PosInf = a"
| "numMin (Finite x) (Finite y) = Finite (min x y)"

fun numLe :: "number \<Rightarrow> number \<Rightarrow> bool" where
  "numLe NaN b = False"
| "numLe a NaN = False"
| "numLe NegInf b = True"
| "numLe a PosInf = True"
| "numLe PosInf b = False"
| "numLe a NegInf = False"
| "numLe (Finite x) (Finite y) = (x \<le> y)"


definition baseDelay64 :: "arith \<Rightarrow> config \<Rightarrow> nat \<Rightarrow> number" where
  "baseDelay64 ar cfg attempts =
     numMin (numMul ar (Finite (INITIAL_RETRY_DELAY_MS cfg))
                       (math_pow ar (RETRY_MULTIPLIER cfg) (attempts - 1)))
            (Finite (MAX_RETRY_DELAY_MS cfg))"

definition jitter64 :: "arith \<Rightarrow> real \<Rightarrow> number" where
  "jitter64 ar rnd = numMul ar (Finite rnd) (Finite 1000)"

definition delay64 :: "arith \<Rightarrow> config \<Rightarrow> nat \<Rightarrow> real \<Rightarrow> number" where
  "delay64 ar cfg attempts rnd = numAdd ar (baseDelay64 ar cfg attempts) (jitter64 ar rnd)"

text \<open>What the bounds below use of the rounding: it is monotone (so it never gives \<open>NaN\<close>)
  and leaves \<open>0\<close> and \<open>1000\<close>, which are doubles, as they are.\<close>

definition roundingOK :: "arith \<Rightarrow> bool" where
  "roundingOK ar =
     ((\<forall>x y. x \<le> y \<longrightarrow> numLe (fl ar x) (fl ar y))
      \<and> fl ar 0 = Finite 0 \<and> fl ar 1000 = Finite 1000)"

text \<open>Two platforms. \<open>exactArith\<close> does not round; it agrees with every double arithmetic
  as long as all results are doubles, for instance integers below \<open>2 ^ 53\<close>.
  \<open>ieee64\<close> rounds to the nearest double, ties to even: for \<open>x\<close> with
  \<open>2 ^ e \<le> |x| < 2 ^ (e + 1)\<close> the doubles around \<open>x\<close> are the multiples of \<open>2 ^ (e - 52)\<close>
  (of \<open>2 ^ (- 1074)\<close> below the normal range), and a result of magnitude \<open>2 ^ 1024\<close> or
  more is an infinity; its \<open>Math.pow\<close> is the rounded exact power.\<close>

definition exactArith :: arith where
  "exactArith = \<lparr> fl = Finite, math_pow = (\<lambda>m k. Finite (m ^ k)) \<rparr>"











subsection \<open>Concrete inputs\<close>

definition exampleConfig :: config where
  "exampleConfig =
     \<lparr> MAX_RETRIES = 2, INITIAL_RETRY_DELAY_MS = 1000, RETRY_MULTIPLIER = 2,
       MAX_RETRY_DELAY_MS = 30000, HEARTBEAT_TIMEOUT_MS = 30000 \<rparr>"

definition envAt :: "real \<Rightarrow> env" where
  "envAt t =
     \<lparr> now = t, math_random = 1 / 2, import_result = ImportResolved True,
       prepare_throws = None, construct_throws = None \<rparr>"

definition notificationWith :: "string \<Rightarrow> json" where
  "notificationWith st = JObj [(''sessionKey'', JStr ''7''), (''state'', JStr st)]"

definition wrappedPayload :: json where
  "wrappedPayload =
     JObj [(''NotificationContainer'',
            JObj [(''type'', JStr ''playing''),
                  (''PlaySessionStateNotification'',
                   JArr [notificationWith ''playing'', notificationWith ''paused'',
                         notificationWith ''stopped''])])]"

text \<open>A stand-in for \<open>JSON.parse\<close> that knows one text and rejects every other.\<close>

definition exampleParse :: "string \<Rightarrow> json option" where
  "exampleParse d = (if d = ''wrapped'' then Some wrappedPayload else None)"

definition importFails :: env where
  "importFails = (envAt 0)\<lparr>import_result := ImportRejected (ErrorObject ''Cannot find package'')\<rparr>"

definition refused :: env where
  "refused = (envAt 0)\<lparr>construct_throws := Some (ErrorObject ''ECONNREFUSED'')\<rparr>"


definition freshClient :: client where
  "freshClient = PlexEventSource_new False ''srv'' ''Plex''"

definition retriedClient :: client where
  "retriedClient =
     run exampleConfig exampleParse
       [(envAt 0, CallConnect), (envAt 1, TransportError OtherValue),
        (envAt 2000, ReconnectTimerFires)] freshClient"

definition failTwice :: "(env \<times> event) list" where
  "failTwice =
     [(envAt 0, CallConnect), (envAt 1, TransportError OtherValue),
      (envAt 2000, ReconnectTimerFires), (envAt 2001, TransportError OtherValue)]"

definition thirdTry :: "(env \<times> event) list" where
  "thirdTry = failTwice @ [(envAt 5000, ReconnectTimerFires)]"

definition keepalives :: "(env \<times> event) list" where
  "keepalives =
     [(envAt 10000, TransportEvent ''ping'' []), (envAt 35000, HeartbeatTimerFires),
      (envAt 39000, TransportEvent ''ping'' []), (envAt 60000, TransportEvent ''ping'' [])]"

definition connectedClient :: client where
  "connectedClient =
     run exampleConfig exampleParse [(envAt 0, CallConnect), (envAt 5, TransportOpen)] freshClient"

section \<open>What each operation does to the fields\<close>

lemma clearConnectionTimeout_eq: "clearConnectionTimeout s = s\<lparr>connectionTimer := None\<rparr>"
  by (cases s) (simp add: clearConnectionTimeout_def)

lemma clearTimers_eq:
  "clearTimers s = s\<lparr>reconnectTimer := None, heartbeatTimer := None, connectionTimer := None\<rparr>"
  by (cases s) (simp add: clearTimers_def clearConnectionTimeout_def Let_def)

lemma cleanupEventSource_eq:
  "cleanupEventSource s =
     s\<lparr>eventSource := None,
       messageListener := eventSource s = None \<and> messageListener s,
       playingListener := eventSource s = None \<and> playingListener s,
       notificationListener := eventSource s = None \<and> notificationListener s,
       pingListener := eventSource s = None \<and> pingListener s\<rparr>"
  by (cases s) (simp add: cleanupEventSource_def split: option.splits)

lemma setState_eq:
  "setState st s =
     s\<lparr>state := st,
       emitted := emitted s @ (if state s \<noteq> st then [ConnectionStateEv st] else [])\<rparr>"
  by (cases s) (simp add: setState_def emit_def)

lemma scheduleReconnect_eq:
  "scheduleReconnect cfg ev s =
     (if MAX_RETRIES cfg \<le> reconnectAttempts s then
        s\<lparr>state := Fallback,
          emitted := emitted s @ (if state s \<noteq> Fallback then [ConnectionStateEv Fallback] else []),
          console := console s @ [LogMaxRetries]\<rparr>
      else
        s\<lparr>state := Reconnecting,
          reconnectAttempts := Suc (reconnectAttempts s),
          reconnectTimer :=
            Some (now ev + reconnectDelay cfg (Suc (reconnectAttempts s)) (math_random ev)),
          emitted :=
            emitted s @ (if state s \<noteq> Reconnecting then [ConnectionStateEv Reconnecting] else []),
          console :=
            console s @
            [LogReconnecting (reconnectDelay cfg (Suc (reconnectAttempts s)) (math_random ev))
               (Suc (reconnectAttempts s))]\<rparr>)"
  by (cases s) (simp add: scheduleReconnect_def setState_eq log_def Let_def)

lemma handleError_eq:
  "handleError cfg ev e s =
     (if MAX_RETRIES cfg \<le> reconnectAttempts s then
        s\<lparr>state := Fallback,
          reconnectTimer := None, heartbeatTimer := None, connectionTimer := None,
          lastError := Some (errorMessage e),
          eventSource := None,
          messageListener := eventSource s = None \<and> messageListener s,
          playingListener := eventSource s = None \<and> playingListener s,
          notificationListener := eventSource s = None \<and> notificationListener s,
          pingListener := eventSource s = None \<and> pingListener s,
          emitted := emitted s @ ConnectionErrorEv (errorMessage e) #
                     (if state s \<noteq> Fallback then [ConnectionStateEv Fallback] else []),
          console := console s @ [LogError (errorMessage e), LogMaxRetries]\<rparr>
      else
        s\<lparr>state := Reconnecting,
          reconnectAttempts := Suc (reconnectAttempts s),
          reconnectTimer :=
            Some (now ev + reconnectDelay cfg (Suc (reconnectAttempts s)) (math_random ev)),
          heartbeatTimer := None, connectionTimer := None,
          lastError := Some (errorMessage e),
          eventSource := None,
          messageListener := eventSource s = None \<and> messageListener s,
          playingListener := eventSource s = None \<and> playingListener s,
          notificationListener := eventSource s = None \<and> notificationListener s,
          pingListener := eventSource s = None \<and> pingListener s,
          emitted := emitted s @ ConnectionErrorEv (errorMessage e) #
                     (if state s \<noteq> Reconnecting then [ConnectionStateEv Reconnecting] else []),
          console :=
            console s @
            [LogError (errorMessage e),
             LogReconnecting (reconnectDelay cfg (Suc (reconnectAttempts s)) (math_random ev))
               (Suc (reconnectAttempts s))]\<rparr>)"
  by (cases s)
     (simp add: handleError_def Let_def clearTimers_eq cleanupEventSource_eq
        scheduleReconnect_eq log_def emit_def)

lemma disconnect_eq:
  "disconnect s =
     s\<lparr>state := Disconnected, connectedAt := None,
       reconnectTimer := None, heartbeatTimer := None, connectionTimer := None,
       eventSource := None,
       messageListener := eventSource s = None \<and> messageListener s,
       playingListener := eventSource s = None \<and> playingListener s,
       notificationListener := eventSource s = None \<and> notificationListener s,
       pingListener := eventSource s = None \<and> pingListener s,
       emitted := emitted s @ (if state s \<noteq> Disconnected then [ConnectionStateEv Disconnected] else []),
       console := console s @ [LogDisconnecting]\<rparr>"
  by (cases s)
     (simp add: disconnect_def Let_def clearTimers_eq cleanupEventSource_eq setState_eq log_def)

lemma onopenCallback_eq:
  "onopenCallback cfg ev s =
     (if state s \<noteq> Connecting then s\<lparr>console := console s @ [LogIgnoringOnopen (state s)]\<rparr>
      else s\<lparr>state := Connected, connectionTimer := None,
             connectedAt := Some (now ev), reconnectAttempts := 0, lastError := None,
             heartbeatTimer := Some (now ev + HEARTBEAT_TIMEOUT_MS cfg),
             emitted := emitted s @ [ConnectionStateEv Connected],
             console := console s @ [LogConnected]\<rparr>)"
  by (cases s)
     (simp add: onopenCallback_def Let_def clearConnectionTimeout_eq setState_eq log_def
        startHeartbeatMonitor_def resetHeartbeatMonitor_def)

lemma connectBlock_eq:
  "connectBlock cfg ev s =
     (case prepare_throws ev of
        Some e \<Rightarrow> handleError cfg ev e s
      | None \<Rightarrow>
          (case (if EventSourceClass s then construct_throws ev
                 else Some (ErrorObject ''EventSourceClass is not a constructor'')) of
             Some e \<Rightarrow> handleError cfg ev e (s\<lparr>console := console s @ [LogConnecting]\<rparr>)
           | None \<Rightarrow>
               s\<lparr>eventSource :=
                   Some \<lparr>onopen = True, onerror = True,
                         listeners = [''message'', ''playing'', ''notification'', ''ping'']\<rparr>,
                 connectionTimer := Some (now ev + HEARTBEAT_TIMEOUT_MS cfg),
                 messageListener := True, playingListener := True,
                 notificationListener := True, pingListener := True,
                 console := console s @ [LogConnecting]\<rparr>))"
  by (cases s)
     (simp add: connectBlock_def Let_def log_def startConnectionTimeout_def
        clearConnectionTimeout_eq split: option.splits)

lemma connectLoaded_noop:
  "state s = Connected \<or> state s = Connecting \<Longrightarrow> connectLoaded cfg ev s = s"
  by (simp add: connectLoaded_def)

lemma connect_loaded: "EventSourceClass s \<Longrightarrow> connect cfg ev s = Inr (connectLoaded cfg ev s)"
  by (simp add: connect_def)

lemma connectedClient_eq:
  "connectedClient =
     \<lparr> EventSourceClass = True, serverId = ''srv'', serverName = ''Plex'',
       eventSource = Some \<lparr>onopen = True, onerror = True,
          listeners = [''message'', ''playing'', ''notification'', ''ping'']\<rparr>,
       state = Connected, reconnectAttempts = 0, reconnectTimer = None,
       heartbeatTimer = Some 30005, connectionTimer = None,
       lastEventTime = None, connectedAt = Some 5, lastError = None,
       messageListener = True, playingListener = True,
       notificationListener = True, pingListener = True,
       emitted = [ConnectionStateEv Connecting, ConnectionStateEv Connected],
       console = [LogConnecting, LogConnected] \<rparr>"
  by (simp add: connectedClient_def freshClient_def PlexEventSource_new_def envAt_def
      exampleConfig_def connect_def connectLoaded_def setState_eq clearTimers_eq
      connectBlock_eq onopenCallback_eq)

lemma retriedClient_eq:
  "retriedClient =
     freshClient
       \<lparr>EventSourceClass := True,
        eventSource := Some \<lparr>onopen = True, onerror = True,
          listeners = [''message'', ''playing'', ''notification'', ''ping'']\<rparr>,
        state := Connecting, reconnectAttempts := 1, connectionTimer := Some 32000,
        lastError := Some ''Connection error'',
        messageListener := True, playingListener := True,
        notificationListener := True, pingListener := True,
        emitted := [ConnectionStateEv Connecting, ConnectionErrorEv ''Connection error'',
                    ConnectionStateEv Reconnecting, ConnectionStateEv Connecting],
        console := [LogConnecting, LogError ''Connection error'', LogReconnecting 1500 1,
                    LogConnecting]\<rparr>"
  by (simp add: retriedClient_def freshClient_def PlexEventSource_new_def envAt_def
      exampleConfig_def connect_def connectLoaded_def setState_eq clearTimers_eq
      connectBlock_eq onerrorCallback_def handleError_eq errorMessage_def
      reconnectTimerCallback_def reconnectDelay_def baseDelay_def)

section \<open>disconnect\<close>

text \<open>
  C5. Whatever the state of the client, \<open>disconnect()\<close> leaves it in state
  \<open>disconnected\<close> with no reconnect, heartbeat or connection-timeout timer pending and
  with the connect time cleared. The callback of the reconnect timer, run on the client
  after that, returns at its state check and changes nothing; the same holds when the
  timer is reported due to the disconnected client.
\<close>

theorem disconnect_from_any_state:
  "state (disconnect s) = Disconnected
   \<and> getState (disconnect s) = Disconnected
   \<and> reconnectTimer (disconnect s) = None
   \<and> heartbeatTimer (disconnect s) = None
   \<and> connectionTimer (disconnect s) = None
   \<and> connectedAt (disconnect s) = None
   \<and> reconnectTimerCallback cfg ev (disconnect s) = disconnect s
   \<and> step cfg parse (ev, ReconnectTimerFires) (disconnect s) = disconnect s"
  by (simp add: disconnect_eq reconnectTimerCallback_def getState_def)

theorem disconnect_from_any_state_witness:
  "state connectedClient = Connected
   \<and> heartbeatTimer connectedClient = Some 30005
   \<and> connectedAt connectedClient = Some 5
   \<and> state (disconnect connectedClient) = Disconnected
   \<and> heartbeatTimer (disconnect connectedClient) = None
   \<and> connectedAt (disconnect connectedClient) = None
   \<and> reconnectTimerCallback exampleConfig (envAt 9) (disconnect connectedClient)
       = disconnect connectedClient"
  using disconnect_from_any_state [of connectedClient exampleConfig "envAt 9" exampleParse]
  by (simp add: connectedClient_eq)

text \<open>
  C10. \<open>disconnect()\<close> writes the connection state, the connect time, the three timers and
  the transport with the listener references kept for its teardown (and reports on the
  two output lists); every other field is as before. In particular the reconnect-attempt
  counter, the last error and the last-event time are unchanged, and \<open>getStatus()\<close> after
  \<open>disconnect()\<close> reports the same attempt count, error message and last-event time as
  before it.
\<close>

theorem disconnect_frame:
  "disconnect s =
     s\<lparr>state := Disconnected, connectedAt := None,
       reconnectTimer := None, heartbeatTimer := None, connectionTimer := None,
       eventSource := None,
       messageListener := eventSource s = None \<and> messageListener s,
       playingListener := eventSource s = None \<and> playingListener s,
       notificationListener := eventSource s = None \<and> notificationListener s,
       pingListener := eventSource s = None \<and> pingListener s,
       emitted := emitted s @ (if state s \<noteq> Disconnected then [ConnectionStateEv Disconnected] else []),
       console := console s @ [LogDisconnecting]\<rparr>
   \<and> reconnectAttempts (disconnect s) = reconnectAttempts s
   \<and> lastError (disconnect s) = lastError s
   \<and> lastEventTime (disconnect s) = lastEventTime s
   \<and> st_reconnectAttempts (getStatus (disconnect s)) = st_reconnectAttempts (getStatus s)
   \<and> st_error (getStatus (disconnect s)) = st_error (getStatus s)
   \<and> st_lastEventAt (getStatus (disconnect s)) = st_lastEventAt (getStatus s)
   \<and> st_serverId (getStatus (disconnect s)) = st_serverId (getStatus s)
   \<and> st_serverName (getStatus (disconnect s)) = st_serverName (getStatus s)"
  by (simp add: disconnect_eq getStatus_def)

theorem disconnect_frame_witness:
  "st_state (getStatus retriedClient) = Connecting
   \<and> st_state (getStatus (disconnect retriedClient)) = Disconnected
   \<and> st_reconnectAttempts (getStatus (disconnect retriedClient)) = 1
   \<and> st_error (getStatus (disconnect retriedClient)) = Some ''Connection error''
   \<and> st_lastEventAt (getStatus (disconnect retriedClient)) = None
   \<and> connectionTimer retriedClient = Some 32000
   \<and> connectionTimer (disconnect retriedClient) = None"
  using disconnect_frame [of retriedClient]
  by (simp add: getStatus_def retriedClient_eq freshClient_def PlexEventSource_new_def)

section \<open>Messages\<close>

lemma getProp_defined: "v \<noteq> JNull \<Longrightarrow> v \<noteq> JUndefined \<Longrightarrow> \<exists>x. getProp k v = Some x"
  by (cases v) simp_all

lemma handlePlaySessionNotification_spec:
  assumes "n \<noteq> JNull" and "n \<noteq> JUndefined"
  shows "handlePlaySessionNotification n ty s = Inr (s\<lparr>emitted := emitted s @ specEvents n\<rparr>)"
proof -
  obtain st where st: "getProp ''state'' n = Some st"
    using getProp_defined [OF assms] by blast
  show ?thesis
    by (cases st) (simp_all add: handlePlaySessionNotification_def specEvents_def st emit_def)
qed

lemma forNotifications_spec:
  assumes "container \<noteq> JNull" and "container \<noteq> JUndefined"
  shows "JNull \<notin> set ns \<Longrightarrow> JUndefined \<notin> set ns \<Longrightarrow>
         forNotifications ns container s
           = Inr (s\<lparr>emitted := emitted s @ concat (map specEvents ns)\<rparr>)"
proof (induction ns arbitrary: s)
  case Nil
  show ?case by simp
next
  case (Cons n ns)
  obtain ty where ty: "getProp ''type'' container = Some ty"
    using getProp_defined [OF assms] by blast
  from Cons.prems have n: "n \<noteq> JNull" "n \<noteq> JUndefined" by auto
  from Cons.prems have rest: "JNull \<notin> set ns" "JUndefined \<notin> set ns" by auto
  show ?case
    by (simp add: ty handlePlaySessionNotification_spec [OF n] Cons.IH [OF rest])
qed

lemma handleParsed_wrapped:
  assumes "map_of props ''NotificationContainer'' = Some (JObj c)"
      and "map_of c ''PlaySessionStateNotification'' = Some (JArr ns)"
      and "JNull \<notin> set ns" and "JUndefined \<notin> set ns"
  shows "handleParsed (JObj props) s = Inr (s\<lparr>emitted := emitted s @ concat (map specEvents ns)\<rparr>)"
  using assms
  by (simp add: handleParsed_def optionalChain_def forNotifications_spec)

lemma handleParsed_wrapped_single:
  assumes "map_of props ''NotificationContainer'' = Some (JObj c)"
      and "map_of c ''PlaySessionStateNotification'' = Some (JObj n)"
  shows "handleParsed (JObj props) s = Inr (s\<lparr>emitted := emitted s @ specEvents (JObj n)\<rparr>)"
proof -
  have "forNotifications [JObj n] (JObj c) s
          = Inr (s\<lparr>emitted := emitted s @ concat (map specEvents [JObj n])\<rparr>)"
    by (rule forNotifications_spec) simp_all
  then show ?thesis
    using assms by (simp add: handleParsed_def optionalChain_def del: forNotifications.simps)
qed

lemma handleParsed_direct:
  assumes "map_of props ''NotificationContainer'' = None"
      and "map_of props ''PlaySessionStateNotification'' = Some n"
      and "n \<noteq> JNull" and "n \<noteq> JUndefined"
  shows "handleParsed (JObj props) s = Inr (s\<lparr>emitted := emitted s @ specEvents n\<rparr>)"
  using assms
  by (simp add: handleParsed_def handlePlaySessionNotification_spec)

lemma handleMessage_unparsable:
  assumes "parse data = None"
  shows "handleMessage cfg parse ev data s =
           s\<lparr>lastEventTime := Some (now ev),
             heartbeatTimer := Some (now ev + HEARTBEAT_TIMEOUT_MS cfg),
             console := console s @ (if data = [] then [] else [LogParseFailed])\<rparr>"
  using assms by (cases s) (simp add: handleMessage_def resetHeartbeatMonitor_def log_def)

lemma handleMessage_parsed:
  assumes "parse data = Some v" and "data \<noteq> []"
      and "handleParsed v (s\<lparr>lastEventTime := Some (now ev),
             heartbeatTimer := Some (now ev + HEARTBEAT_TIMEOUT_MS cfg)\<rparr>) = Inr s'"
  shows "handleMessage cfg parse ev data s = s'"
  using assms by (simp add: handleMessage_def resetHeartbeatMonitor_def Let_def)


lemma emitted_append_twice:
  "s\<lparr>emitted := emitted s @ es\<rparr>\<lparr>emitted := emitted (s\<lparr>emitted := emitted s @ es\<rparr>) @ es'\<rparr>
     = s\<lparr>emitted := emitted s @ (es @ es')\<rparr>"
  by simp

lemma sessionsAdded_refl: "sessionsAdded s s"
  unfolding sessionsAdded_def by (rule exI [of _ "[]"]) simp

lemma sessionsAdded_trans: "sessionsAdded s s' \<Longrightarrow> sessionsAdded s' s'' \<Longrightarrow> sessionsAdded s s''"
  unfolding sessionsAdded_def
  by (metis emitted_append_twice list_all_append)

lemma sessionsAdded_emit: "isSessionEvent e \<Longrightarrow> sessionsAdded s (emit e s)"
  unfolding sessionsAdded_def emit_def by (rule exI [of _ "[e]"]) simp

lemma handlePlaySessionNotification_adds:
  "sessionsAdded s (case_sum id id (handlePlaySessionNotification n ty s))"
  by (simp add: handlePlaySessionNotification_def sessionsAdded_refl sessionsAdded_emit
      split: option.splits)

lemma forNotifications_adds:
  "sessionsAdded s (case_sum id id (forNotifications ns container s))"
proof (induction ns arbitrary: s)
  case Nil
  show ?case by (simp add: sessionsAdded_refl)
next
  case (Cons n ns)
  show ?case
  proof (cases "getProp ''type'' container")
    case None
    then show ?thesis by (simp add: sessionsAdded_refl)
  next
    case (Some ty)
    show ?thesis
    proof (cases "handlePlaySessionNotification n ty s")
      case (Inl s')
      with handlePlaySessionNotification_adds [of s n ty] Some show ?thesis by simp
    next
      case (Inr s')
      with handlePlaySessionNotification_adds [of s n ty] have "sessionsAdded s s'" by simp
      with Cons.IH [of s'] Some Inr show ?thesis
        by (simp add: sessionsAdded_trans)
    qed
  qed
qed

lemma handleParsed_adds: "sessionsAdded s (case_sum id id (handleParsed v s))"
  by (simp add: handleParsed_def sessionsAdded_refl handlePlaySessionNotification_adds
      forNotifications_adds split: option.splits)

lemma handleMessage_shape:
  "\<exists>es cs. handleMessage cfg parse ev data s =
            s\<lparr>lastEventTime := Some (now ev),
              heartbeatTimer := Some (now ev + HEARTBEAT_TIMEOUT_MS cfg),
              emitted := emitted s @ es, console := console s @ cs\<rparr>
          \<and> list_all isSessionEvent es \<and> list_all (\<lambda>l. l = LogParseFailed) cs"
proof -
  let ?s2 = "s\<lparr>lastEventTime := Some (now ev),
              heartbeatTimer := Some (now ev + HEARTBEAT_TIMEOUT_MS cfg)\<rparr>"
  have shape: ?thesis
    if hm: "handleMessage cfg parse ev data s
              = (case_sum id id (handleParsed v ?s2))
                  \<lparr>console := console (case_sum id id (handleParsed v ?s2)) @ cs\<rparr>"
       and cs: "list_all (\<lambda>l. l = LogParseFailed) cs"
    for v cs
  proof -
    from handleParsed_adds [of ?s2 v] obtain es
      where es: "case_sum id id (handleParsed v ?s2) = ?s2\<lparr>emitted := emitted ?s2 @ es\<rparr>"
        and ses: "list_all isSessionEvent es"
      unfolding sessionsAdded_def by blast
    have "handleMessage cfg parse ev data s =
            s\<lparr>lastEventTime := Some (now ev),
              heartbeatTimer := Some (now ev + HEARTBEAT_TIMEOUT_MS cfg),
              emitted := emitted s @ es, console := console s @ cs\<rparr>"
      unfolding hm es by simp
    with ses cs show ?thesis by blast
  qed
  show ?thesis
  proof (cases "data = []")
    case True
    have "handleMessage cfg parse ev data s = ?s2\<lparr>emitted := emitted ?s2 @ [], console := console ?s2 @ []\<rparr>"
      using True by (simp add: handleMessage_def resetHeartbeatMonitor_def)
    then show ?thesis
      by (intro exI [of _ "[]"]) simp
  next
    case False
    show ?thesis
    proof (cases "parse data")
      case None
      have "handleMessage cfg parse ev data s = ?s2\<lparr>emitted := emitted ?s2 @ [], console := console ?s2 @ [LogParseFailed]\<rparr>"
        using False None by (simp add: handleMessage_def resetHeartbeatMonitor_def log_def)
      then show ?thesis
        by (intro exI [of _ "[]"] exI [of _ "[LogParseFailed]"]) simp
    next
      case (Some v)
      show ?thesis
      proof (cases "handleParsed v ?s2")
        case (Inl s')
        have "handleMessage cfg parse ev data s
                = (case_sum id id (handleParsed v ?s2))
                    \<lparr>console := console (case_sum id id (handleParsed v ?s2)) @ [LogParseFailed]\<rparr>"
          using False Some Inl by (simp add: handleMessage_def resetHeartbeatMonitor_def log_def)
        then show ?thesis by (rule shape) simp
      next
        case (Inr s')
        have "handleMessage cfg parse ev data s
                = (case_sum id id (handleParsed v ?s2))
                    \<lparr>console := console (case_sum id id (handleParsed v ?s2)) @ []\<rparr>"
          using False Some Inr by (simp add: handleMessage_def resetHeartbeatMonitor_def log_def)
        then show ?thesis by (rule shape) simp
      qed
    qed
  qed
qed


text \<open>
  C7. A message whose body \<open>JSON.parse\<close> rejects changes nothing but the last-event time,
  the heartbeat timer and the console (one "Failed to parse" line): no session event and
  no \<open>connection:error\<close> is emitted, the error path does not run, and the connection
  state, the transport and the attempt counter are as before. The same holds for the
  delivery of such a message on any channel.
\<close>

theorem unparsable_message_dropped:
  assumes "parse data = None"
  shows "handleMessage cfg parse ev data s =
           s\<lparr>lastEventTime := Some (now ev),
             heartbeatTimer := Some (now ev + HEARTBEAT_TIMEOUT_MS cfg),
             console := console s @ (if data = [] then [] else [LogParseFailed])\<rparr>
         \<and> emitted (handleMessage cfg parse ev data s) = emitted s
         \<and> errorCount (handleMessage cfg parse ev data s) = errorCount s
         \<and> state (handleMessage cfg parse ev data s) = state s
         \<and> eventSource (handleMessage cfg parse ev data s) = eventSource s
         \<and> reconnectAttempts (handleMessage cfg parse ev data s) = reconnectAttempts s
         \<and> emitted (step cfg parse (ev, TransportEvent name data) s) = emitted s
         \<and> state (step cfg parse (ev, TransportEvent name data) s) = state s
         \<and> eventSource (step cfg parse (ev, TransportEvent name data) s) = eventSource s"
  using assms
  by (simp add: handleMessage_unparsable errorCount_def resetHeartbeatMonitor_def
      split: option.splits)

theorem unparsable_message_dropped_witness:
  "exampleParse ''{not json'' = None
   \<and> state connectedClient = Connected
   \<and> state (step exampleConfig exampleParse (envAt 9, TransportEvent ''message'' ''{not json'')
              connectedClient) = Connected
   \<and> emitted (step exampleConfig exampleParse (envAt 9, TransportEvent ''message'' ''{not json'')
                connectedClient) = [ConnectionStateEv Connecting, ConnectionStateEv Connected]
   \<and> console (handleMessage exampleConfig exampleParse (envAt 9) ''{not json'' connectedClient)
       = [LogConnecting, LogConnected, LogParseFailed]"
  using unparsable_message_dropped
          [of exampleParse "''{not json''" exampleConfig "envAt 9" connectedClient "''message''"]
  by (simp add: exampleParse_def connectedClient_eq)

text \<open>
  C4. The event emitted for a notification is read off its \<open>state\<close> field: \<open>playing\<close> gives
  \<open>session:playing\<close>, \<open>paused\<close> gives \<open>session:paused\<close>, \<open>stopped\<close> gives \<open>session:stopped\<close>,
  \<open>buffering\<close> gives \<open>session:playing\<close>, anything else gives nothing; the event type handed
  to \<open>handlePlaySessionNotification\<close> (the container's \<open>type\<close>) plays no part. For a wrapped
  container holding an array of notifications (none of them \<open>null\<close>) the events of the
  notifications are emitted in array order, whatever else the container holds; a direct
  notification gives its own event.
\<close>

theorem notification_event_from_state_field:
  "(n \<noteq> JNull \<and> n \<noteq> JUndefined \<longrightarrow>
      handlePlaySessionNotification n ty s = Inr (s\<lparr>emitted := emitted s @ specEvents n\<rparr>))
   \<and> (getProp ''state'' n = Some (JStr ''playing'') \<longrightarrow> specEvents n = [SessionPlaying n])
   \<and> (getProp ''state'' n = Some (JStr ''paused'') \<longrightarrow> specEvents n = [SessionPaused n])
   \<and> (getProp ''state'' n = Some (JStr ''stopped'') \<longrightarrow> specEvents n = [SessionStopped n])
   \<and> (getProp ''state'' n = Some (JStr ''buffering'') \<longrightarrow> specEvents n = [SessionPlaying n])
   \<and> (getProp ''state'' n \<notin> {Some (JStr ''playing''), Some (JStr ''paused''),
                               Some (JStr ''stopped''), Some (JStr ''buffering'')} \<longrightarrow>
        specEvents n = [])
   \<and> (data \<noteq> [] \<and> parse data = Some (JObj props)
        \<and> map_of props ''NotificationContainer'' = Some (JObj c)
        \<and> map_of c ''PlaySessionStateNotification'' = Some (JArr ns)
        \<and> JNull \<notin> set ns \<and> JUndefined \<notin> set ns \<longrightarrow>
        emitted (handleMessage cfg parse ev data s) = emitted s @ concat (map specEvents ns))
   \<and> (data \<noteq> [] \<and> parse data = Some (JObj props)
        \<and> map_of props ''NotificationContainer'' = None
        \<and> map_of props ''PlaySessionStateNotification'' = Some n
        \<and> n \<noteq> JNull \<and> n \<noteq> JUndefined \<longrightarrow>
        emitted (handleMessage cfg parse ev data s) = emitted s @ specEvents n)"
proof -
  have other: "specEvents n = []"
    if "getProp ''state'' n \<notin> {Some (JStr ''playing''), Some (JStr ''paused''),
                                 Some (JStr ''stopped''), Some (JStr ''buffering'')}"
    using that by (auto simp: specEvents_def split: option.splits json.splits)
  have wrapped: "emitted (handleMessage cfg parse ev data s) = emitted s @ concat (map specEvents ns)"
    if "data \<noteq> []" "parse data = Some (JObj props)"
       "map_of props ''NotificationContainer'' = Some (JObj c)"
       "map_of c ''PlaySessionStateNotification'' = Some (JArr ns)"
       "JNull \<notin> set ns" "JUndefined \<notin> set ns"
    using that
    by (simp add: handleMessage_def Let_def handleParsed_wrapped [of props c ns])
       (simp add: resetHeartbeatMonitor_def)
  have direct: "emitted (handleMessage cfg parse ev data s) = emitted s @ specEvents n"
    if "data \<noteq> []" "parse data = Some (JObj props)"
       "map_of props ''NotificationContainer'' = None"
       "map_of props ''PlaySessionStateNotification'' = Some n"
       "n \<noteq> JNull" "n \<noteq> JUndefined"
    using that
    by (simp add: handleMessage_def Let_def handleParsed_direct [of props n])
       (simp add: resetHeartbeatMonitor_def)
  show ?thesis
    using other wrapped direct
    by (simp add: handlePlaySessionNotification_spec specEvents_def)
qed

theorem notification_event_from_state_field_witness:
  "emitted (handleMessage exampleConfig exampleParse (envAt 9) ''wrapped'' connectedClient)
     = emitted connectedClient @
       [SessionPlaying (notificationWith ''playing''),
        SessionPaused (notificationWith ''paused''),
        SessionStopped (notificationWith ''stopped'')]
   \<and> handlePlaySessionNotification (notificationWith ''buffering'') (JStr ''stopped'')
         connectedClient
       = Inr (connectedClient
               \<lparr>emitted := emitted connectedClient @
                             [SessionPlaying (notificationWith ''buffering'')]\<rparr>)"
  using notification_event_from_state_field
          [where n = "notificationWith ''buffering''" and ty = "JStr ''stopped''"
             and s = connectedClient and data = "''wrapped''" and parse = exampleParse
             and props = "[(''NotificationContainer'',
                 JObj [(''type'', JStr ''playing''),
                       (''PlaySessionStateNotification'',
                        JArr [notificationWith ''playing'', notificationWith ''paused'',
                              notificationWith ''stopped''])])]"
             and c = "[(''type'', JStr ''playing''),
                (''PlaySessionStateNotification'',
                 JArr [notificationWith ''playing'', notificationWith ''paused'',
                       notificationWith ''stopped''])]"
             and ns = "[notificationWith ''playing'', notificationWith ''paused'',
                notificationWith ''stopped'']"
             and cfg = exampleConfig and ev = "envAt 9"]
  by (simp add: exampleParse_def wrappedPayload_def notificationWith_def specEvents_def)

section \<open>Steps\<close>

lemma handleMessage_fields:
  "state (handleMessage cfg parse ev data s) = state s"
  "reconnectAttempts (handleMessage cfg parse ev data s) = reconnectAttempts s"
  "eventSource (handleMessage cfg parse ev data s) = eventSource s"
  "EventSourceClass (handleMessage cfg parse ev data s) = EventSourceClass s"
  "reconnectTimer (handleMessage cfg parse ev data s) = reconnectTimer s"
  "connectionTimer (handleMessage cfg parse ev data s) = connectionTimer s"
  "heartbeatTimer (handleMessage cfg parse ev data s) = Some (now ev + HEARTBEAT_TIMEOUT_MS cfg)"
  "errorCount (handleMessage cfg parse ev data s) = errorCount s"
  "connectedCount (handleMessage cfg parse ev data s) = connectedCount s"
  "reconnectsScheduled (handleMessage cfg parse ev data s) = reconnectsScheduled s"
proof -
  obtain es cs where eq: "handleMessage cfg parse ev data s =
            s\<lparr>lastEventTime := Some (now ev),
              heartbeatTimer := Some (now ev + HEARTBEAT_TIMEOUT_MS cfg),
              emitted := emitted s @ es, console := console s @ cs\<rparr>"
     and es: "list_all isSessionEvent es" and cs: "list_all (\<lambda>l. l = LogParseFailed) cs"
    using handleMessage_shape by blast
  have f1: "filter isConnectionError es = []"
    using es by (induction es) (auto elim: isSessionEvent.elims)
  have f2: "filter (\<lambda>e. e = ConnectionStateEv Connected) es = []"
    using es by (induction es) auto
  have f3: "filter isReconnectLog cs = []"
    using cs by (induction cs) auto
  show "state (handleMessage cfg parse ev data s) = state s"
    "reconnectAttempts (handleMessage cfg parse ev data s) = reconnectAttempts s"
    "eventSource (handleMessage cfg parse ev data s) = eventSource s"
    "EventSourceClass (handleMessage cfg parse ev data s) = EventSourceClass s"
    "reconnectTimer (handleMessage cfg parse ev data s) = reconnectTimer s"
    "connectionTimer (handleMessage cfg parse ev data s) = connectionTimer s"
    "heartbeatTimer (handleMessage cfg parse ev data s) = Some (now ev + HEARTBEAT_TIMEOUT_MS cfg)"
    "errorCount (handleMessage cfg parse ev data s) = errorCount s"
    "connectedCount (handleMessage cfg parse ev data s) = connectedCount s"
    "reconnectsScheduled (handleMessage cfg parse ev data s) = reconnectsScheduled s"
    by (simp_all add: eq errorCount_def connectedCount_def reconnectsScheduled_def f1 f2 f3)
qed

lemmas counters = errorCount_def connectedCount_def reconnectsScheduled_def

lemmas step_unfold =
  connect_def connectLoaded_def connectBlock_eq handleError_eq disconnect_eq onopenCallback_eq
  onerrorCallback_def reconnectTimerCallback_def heartbeatTimerCallback_def
  connectionTimerCallback_def resetHeartbeatMonitor_def setState_eq clearTimers_eq log_def

text \<open>The attempt counter goes down only when the open callback connects.\<close>

lemma step_attempts:
  "reconnectAttempts s \<le> reconnectAttempts (step cfg parse (ev, e) s)
   \<or> (e = TransportOpen \<and> state s = Connecting
       \<and> state (step cfg parse (ev, e) s) = Connected
       \<and> reconnectAttempts (step cfg parse (ev, e) s) = 0)"
  by (cases e)
     (auto simp: step_unfold handleMessage_fields
        split: option.splits import_outcome.splits)

section \<open>Backoff delay\<close>


lemma numLe_trans: "numLe a b \<Longrightarrow> numLe b c \<Longrightarrow> numLe a c"
  by (cases a; cases b; cases c) simp_all











text \<open>Without rounding the double-precision delay is the delay of the client model.\<close>

lemma exactArith_ok: "roundingOK exactArith"
  by (simp add: roundingOK_def exactArith_def)

lemma delay64_exact: "delay64 exactArith cfg n r = Finite (reconnectDelay cfg n r)"
  by (simp add: delay64_def baseDelay64_def jitter64_def exactArith_def reconnectDelay_def
      baseDelay_def)




































section \<open>connect\<close>

lemma step_loadedWhenOpen: "loadedWhenOpen s \<Longrightarrow> loadedWhenOpen (step cfg parse x s)"
  by (cases x, cases "snd x")
     (auto simp: loadedWhenOpen_def step_unfold handleMessage_fields
        split: option.splits import_outcome.splits if_splits)

lemma run_loadedWhenOpen: "loadedWhenOpen s \<Longrightarrow> loadedWhenOpen (run cfg parse xs s)"
  by (induction xs arbitrary: s) (simp_all add: step_loadedWhenOpen)

lemma new_loadedWhenOpen: "loadedWhenOpen (PlexEventSource_new b sid sname)"
  by (simp add: loadedWhenOpen_def PlexEventSource_new_def)

text \<open>
  C6. In every state a client can reach in which it is \<open>connected\<close> or \<open>connecting\<close>,
  \<open>connect()\<close> resolves and returns the client as it was: no transport is constructed, no
  field changes, nothing is emitted or logged. (For an arbitrary record the same holds
  when the transport class is loaded, which it is in every reachable such state.)
  \<open>setState\<close> emits \<open>connection:state\<close> exactly when the new state differs from the
  current one.
\<close>

theorem connect_while_open_is_noop:
  "(s = run cfg parse xs (PlexEventSource_new b sid sname)
      \<and> (state s = Connected \<or> state s = Connecting) \<longrightarrow>
      connect cfg ev s = Inr s \<and> step cfg parse (ev, CallConnect) s = s)
   \<and> ((state s = Connected \<or> state s = Connecting) \<and> EventSourceClass s \<longrightarrow>
        connect cfg ev s = Inr s)
   \<and> emitted (setState st s) = emitted s @ (if st \<noteq> state s then [ConnectionStateEv st] else [])
   \<and> state (setState st s) = st"
proof -
  have loaded: "connect cfg ev s = Inr s"
    if "state s = Connected \<or> state s = Connecting" "EventSourceClass s"
    using that by (simp add: connect_loaded connectLoaded_noop)
  have reach: "EventSourceClass s"
    if "s = run cfg parse xs (PlexEventSource_new b sid sname)"
       "state s = Connected \<or> state s = Connecting"
    using run_loadedWhenOpen [OF new_loadedWhenOpen, of cfg parse xs b sid sname] that
    by (auto simp: loadedWhenOpen_def)
  show ?thesis
    using loaded reach by (auto simp: setState_eq)
qed

theorem connect_while_open_is_noop_witness:
  "state connectedClient = Connected
   \<and> connect exampleConfig (envAt 9) connectedClient = Inr connectedClient
   \<and> step exampleConfig exampleParse (envAt 9, CallConnect) connectedClient = connectedClient
   \<and> emitted (setState Connected connectedClient) = emitted connectedClient
   \<and> emitted (setState Fallback connectedClient)
       = emitted connectedClient @ [ConnectionStateEv Fallback]"
  using connect_while_open_is_noop
          [of connectedClient exampleConfig exampleParse
              "[(envAt 0, CallConnect), (envAt 5, TransportOpen)]" False "''srv''" "''Plex''"
              "envAt 9" Connected]
        connect_while_open_is_noop
          [of connectedClient exampleConfig exampleParse
              "[(envAt 0, CallConnect), (envAt 5, TransportOpen)]" False "''srv''" "''Plex''"
              "envAt 9" Fallback]
  by (simp add: connectedClient_def [symmetric] freshClient_def [symmetric])
     (simp add: connectedClient_eq)

lemma connectLoaded_raises:
  assumes "state s \<noteq> Connected" and "state s \<noteq> Connecting"
      and "raisedInBlock ev (EventSourceClass s) = Some x"
  shows "\<exists>s0. connectLoaded cfg ev s = handleError cfg ev x s0
            \<and> errorCount s0 = errorCount s \<and> reconnectAttempts s0 = reconnectAttempts s"
proof -
  define s1 where "s1 = clearTimers (setState Connecting s)"
  define s2 where "s2 = s1\<lparr>console := console s1 @ [LogConnecting]\<rparr>"
  have same: "errorCount s1 = errorCount s" "reconnectAttempts s1 = reconnectAttempts s"
    "errorCount s2 = errorCount s" "reconnectAttempts s2 = reconnectAttempts s"
    by (simp_all add: s1_def s2_def clearTimers_eq setState_eq errorCount_def)
  have "connectLoaded cfg ev s = handleError cfg ev x s1
        \<or> connectLoaded cfg ev s = handleError cfg ev x s2"
    using assms
    by (auto simp: connectLoaded_def connectBlock_eq raisedInBlock_def s1_def s2_def
          clearTimers_eq setState_eq
        split: option.splits if_splits)
  with same show ?thesis by blast
qed

lemma handleError_effect:
  "errorCount (handleError cfg ev x s) = Suc (errorCount s)"
  "lastError (handleError cfg ev x s) = Some (errorMessage x)"
  "ConnectionErrorEv (errorMessage x) \<in> set (emitted (handleError cfg ev x s))"
  "eventSource (handleError cfg ev x s) = None"
  "state (handleError cfg ev x s)
     = (if reconnectAttempts s < MAX_RETRIES cfg then Reconnecting else Fallback)"
  "EventSourceClass (handleError cfg ev x s) = EventSourceClass s"
  by (simp_all add: handleError_eq errorCount_def)

text \<open>
  The claim that \<open>connect()\<close> never returns a rejected promise fails for a client whose
  transport class is not loaded when the lazy import rejects: the \<open>await import\<close> stands
  before the guarded block.
\<close>

theorem connect_rejects_counterexample:
  "connect exampleConfig importFails freshClient = Inl (ErrorObject ''Cannot find package'')"
  by (simp add: connect_def importFails_def envAt_def freshClient_def PlexEventSource_new_def)

lemma EventSourceClass_same: "EventSourceClass s \<Longrightarrow> s\<lparr>EventSourceClass := True\<rparr> = s"
  by (cases s) simp

lemma connect_Inl_iff:
  "connect cfg ev s = Inl e \<longleftrightarrow> \<not> EventSourceClass s \<and> import_result ev = ImportRejected e"
  by (auto simp: connect_def split: import_outcome.splits)

lemma connect_funnels:
  assumes "state s \<noteq> Connected" and "state s \<noteq> Connecting"
      and "EventSourceClass s \<and> loaded \<or> \<not> EventSourceClass s \<and> import_result ev = ImportResolved loaded"
      and "raisedInBlock ev loaded = Some x"
  shows "\<exists>s'. connect cfg ev s = Inr s'
          \<and> errorCount s' = Suc (errorCount s)
          \<and> lastError s' = Some (errorMessage x)
          \<and> ConnectionErrorEv (errorMessage x) \<in> set (emitted s')
          \<and> eventSource s' = None
          \<and> state s' = (if reconnectAttempts s < MAX_RETRIES cfg then Reconnecting else Fallback)"
proof -
  let ?s = "s\<lparr>EventSourceClass := loaded\<rparr>"
  have c: "connect cfg ev s = Inr (connectLoaded cfg ev ?s)"
    using assms(3) by (auto simp: connect_def EventSourceClass_same)
  have "state ?s \<noteq> Connected" "state ?s \<noteq> Connecting"
       "raisedInBlock ev (EventSourceClass ?s) = Some x"
    using assms by simp_all
  from connectLoaded_raises [OF this, of cfg] obtain s0
    where s0: "connectLoaded cfg ev ?s = handleError cfg ev x s0"
      and e0: "errorCount s0 = errorCount ?s"
      and r0: "reconnectAttempts s0 = reconnectAttempts ?s" by blast
  have e1: "errorCount ?s = errorCount s"
    by (simp add: errorCount_def)
  show ?thesis
    unfolding c s0 using r0
    by (simp add: handleError_effect e0 e1)
qed

text \<open>
  C2 (as amended). \<open>connect()\<close> returns a rejected promise exactly when the transport class
  is not loaded yet and the lazy import rejects; the client is then as before. In every
  other case it resolves. When it gets past its guard (state neither \<open>connected\<close> nor
  \<open>connecting\<close>) and the guarded block raises an exception, while the URL and headers are
  built, by the constructor, or by calling a class the import did not provide, the
  exception is handed to \<open>handleError\<close>: \<open>connection:error\<close> is emitted once with its
  message, the message is kept as last error, the transport is dropped, and the state is
  \<open>reconnecting\<close>, or \<open>fallback\<close> when the attempts are used up.
\<close>

theorem connect_funnels_block_exceptions:
  "(connect cfg ev s = Inl e \<longleftrightarrow> \<not> EventSourceClass s \<and> import_result ev = ImportRejected e)
   \<and> (connect cfg ev s = Inl e \<longrightarrow> step cfg parse (ev, CallConnect) s = s)
   \<and> (EventSourceClass s \<or> import_result ev = ImportResolved loaded \<longrightarrow>
        (\<exists>s'. connect cfg ev s = Inr s'))
   \<and> (state s \<noteq> Connected \<and> state s \<noteq> Connecting
        \<and> (EventSourceClass s \<and> loaded
             \<or> \<not> EventSourceClass s \<and> import_result ev = ImportResolved loaded)
        \<and> raisedInBlock ev loaded = Some x \<longrightarrow>
        (\<exists>s'. connect cfg ev s = Inr s'
          \<and> errorCount s' = Suc (errorCount s)
          \<and> lastError s' = Some (errorMessage x)
          \<and> ConnectionErrorEv (errorMessage x) \<in> set (emitted s')
          \<and> eventSource s' = None
          \<and> state s' = (if reconnectAttempts s < MAX_RETRIES cfg then Reconnecting else Fallback)))"
proof -
  have resolves: "\<exists>s'. connect cfg ev s = Inr s'"
    if "EventSourceClass s \<or> import_result ev = ImportResolved loaded"
    using that by (auto simp: connect_def)
  have rejected: "step cfg parse (ev, CallConnect) s = s" if "connect cfg ev s = Inl e"
    using that by simp
  show ?thesis
    using resolves rejected connect_funnels [of s loaded ev x cfg]
    by (auto simp: connect_Inl_iff simp del: step.simps)
qed

theorem connect_funnels_block_exceptions_witness:
  "connect exampleConfig refused freshClient
     = Inr (freshClient
            \<lparr>EventSourceClass := True, state := Reconnecting, reconnectAttempts := 1,
              reconnectTimer := Some 1500, lastError := Some ''ECONNREFUSED'',
              emitted := [ConnectionStateEv Connecting, ConnectionErrorEv ''ECONNREFUSED'',
                          ConnectionStateEv Reconnecting],
              console := [LogConnecting, LogError ''ECONNREFUSED'', LogReconnecting 1500 1]\<rparr>)
   \<and> connect exampleConfig importFails freshClient \<noteq> Inr freshClient"
  using connect_funnels_block_exceptions
          [of exampleConfig refused freshClient "ErrorObject ''x''" exampleParse True
              "ErrorObject ''ECONNREFUSED''"]
        connect_funnels_block_exceptions
          [of exampleConfig importFails freshClient "ErrorObject ''Cannot find package''"
              exampleParse True "ErrorObject ''ECONNREFUSED''"]
  by (simp add: refused_def importFails_def envAt_def freshClient_def PlexEventSource_new_def
      exampleConfig_def connect_def connectLoaded_def connectBlock_eq handleError_eq
      setState_eq clearTimers_eq errorMessage_def reconnectDelay_def baseDelay_def)

section \<open>The attempt counter\<close>

text \<open>
  C9. An event lowers the reconnect-attempt counter only if it is the open callback of the
  transport arriving in state \<open>connecting\<close>, which makes the client \<open>connected\<close> and sets
  the counter to zero; \<open>disconnect()\<close> leaves the counter as it is, and
  \<open>scheduleReconnect\<close> and the error path never lower it. So a failure that follows a
  successful open is attempt one, and (when at least one retry is allowed) its reconnect
  timer is set with the initial delay \<open>min INITIAL_RETRY_DELAY_MS MAX_RETRY_DELAY_MS\<close> plus
  jitter.
\<close>

theorem attempts_reset_only_by_open:
  "(reconnectAttempts (step cfg parse (ev, e) s) < reconnectAttempts s \<longrightarrow>
      e = TransportOpen \<and> state s = Connecting
      \<and> state (step cfg parse (ev, e) s) = Connected
      \<and> reconnectAttempts (step cfg parse (ev, e) s) = 0)
   \<and> reconnectAttempts (disconnect s) = reconnectAttempts s
   \<and> reconnectAttempts s \<le> reconnectAttempts (scheduleReconnect cfg ev s)
   \<and> reconnectAttempts s \<le> reconnectAttempts (handleError cfg ev x s)
   \<and> (state s = Connecting \<longrightarrow>
        state (onopenCallback cfg ev s) = Connected
        \<and> reconnectAttempts (onopenCallback cfg ev s) = 0)
   \<and> (state s = Connecting \<and> 0 < MAX_RETRIES cfg \<longrightarrow>
        reconnectAttempts (handleError cfg ev' x (onopenCallback cfg ev s)) = 1
        \<and> reconnectTimer (handleError cfg ev' x (onopenCallback cfg ev s))
            = Some (now ev' + (min (INITIAL_RETRY_DELAY_MS cfg) (MAX_RETRY_DELAY_MS cfg)
                               + math_random ev' * 1000)))"
proof -
  have dec: "e = TransportOpen \<and> state s = Connecting
      \<and> state (step cfg parse (ev, e) s) = Connected
      \<and> reconnectAttempts (step cfg parse (ev, e) s) = 0"
    if "reconnectAttempts (step cfg parse (ev, e) s) < reconnectAttempts s"
    using step_attempts [of s cfg parse ev e] that by linarith
  have after: "reconnectAttempts (handleError cfg ev' x (onopenCallback cfg ev s)) = 1
        \<and> reconnectTimer (handleError cfg ev' x (onopenCallback cfg ev s))
            = Some (now ev' + (min (INITIAL_RETRY_DELAY_MS cfg) (MAX_RETRY_DELAY_MS cfg)
                               + math_random ev' * 1000))"
    if "state s = Connecting" "0 < MAX_RETRIES cfg"
    using that by (simp add: onopenCallback_eq handleError_eq reconnectDelay_def baseDelay_def)
  show ?thesis
    using dec after
    by (simp add: disconnect_eq scheduleReconnect_eq handleError_eq onopenCallback_eq
        del: step.simps)
qed

theorem attempts_reset_only_by_open_witness:
  "reconnectAttempts retriedClient = 1
   \<and> state retriedClient = Connecting
   \<and> reconnectAttempts (step exampleConfig exampleParse (envAt 2005, TransportOpen) retriedClient) = 0
   \<and> reconnectAttempts (disconnect retriedClient) = 1
   \<and> reconnectTimer (handleError exampleConfig (envAt 2050) OtherValue
                        (onopenCallback exampleConfig (envAt 2005) retriedClient))
       = Some 3550"
  using attempts_reset_only_by_open
          [of exampleConfig exampleParse "envAt 2005" TransportOpen retriedClient OtherValue
              "envAt 2050"]
  by (simp add: retriedClient_eq freshClient_def PlexEventSource_new_def onopenCallback_eq)
     (simp add: envAt_def exampleConfig_def)

section \<open>Failures, retries and fallback\<close>

lemma sameCounters_refl: "sameCounters s s"
  by (simp add: sameCounters_def)

lemma sameCounters_trans: "sameCounters a b \<Longrightarrow> sameCounters b c \<Longrightarrow> sameCounters a c"
  by (simp add: sameCounters_def)

lemma sameCounters_simple:
  "sameCounters (s\<lparr>EventSourceClass := b\<rparr>) s"
  "sameCounters (s\<lparr>reconnectTimer := t\<rparr>) s"
  "sameCounters (s\<lparr>heartbeatTimer := t\<rparr>) s"
  "sameCounters (s\<lparr>connectionTimer := t\<rparr>) s"
  "sameCounters (clearTimers s) s"
  "sameCounters (log l s) s \<longleftrightarrow> \<not> isReconnectLog l"
  "sameCounters (resetHeartbeatMonitor cfg ev s) s"
  "sameCounters (handleMessage cfg parse ev data s) s"
  "sameCounters (disconnect s) s"
  "st \<noteq> Connected \<Longrightarrow> sameCounters (setState st s) s"
  by (simp_all add: sameCounters_def counters clearTimers_eq log_def resetHeartbeatMonitor_def
      handleMessage_fields [unfolded counters] disconnect_eq setState_eq)

lemma handleError_counts:
  "errorCount (handleError cfg ev x s) = Suc (errorCount s)"
  "connectedCount (handleError cfg ev x s) = connectedCount s"
  "reconnectsScheduled (handleError cfg ev x s)
     = (if reconnectAttempts s < MAX_RETRIES cfg then Suc (reconnectsScheduled s)
        else reconnectsScheduled s)"
  "reconnectAttempts (handleError cfg ev x s)
     = (if reconnectAttempts s < MAX_RETRIES cfg then Suc (reconnectAttempts s)
        else reconnectAttempts s)"
  "reconnectTimer (handleError cfg ev x s) = None \<longleftrightarrow> \<not> reconnectAttempts s < MAX_RETRIES cfg"
  "heartbeatTimer (handleError cfg ev x s) = None"
  "connectionTimer (handleError cfg ev x s) = None"
  by (simp_all add: handleError_eq counters)


lemma connectBlock_shape:
  "sameCounters (connectBlock cfg ev s) s
   \<or> (\<exists>s0 x. connectBlock cfg ev s = handleError cfg ev x s0 \<and> sameCounters s0 s)"
proof (cases "prepare_throws ev")
  case (Some e)
  then have "connectBlock cfg ev s = handleError cfg ev e s"
    by (simp add: connectBlock_eq)
  then show ?thesis using sameCounters_refl by blast
next
  case None
  let ?s1 = "s\<lparr>console := console s @ [LogConnecting]\<rparr>"
  have s1: "sameCounters ?s1 s"
    by (simp add: sameCounters_def counters)
  show ?thesis
  proof (cases "if EventSourceClass s then construct_throws ev
                else Some (ErrorObject ''EventSourceClass is not a constructor'')")
    case (Some e)
    with None have "connectBlock cfg ev s = handleError cfg ev e ?s1"
      by (simp add: connectBlock_eq)
    with s1 show ?thesis by blast
  next
    case nothrow: None
    with None have "sameCounters (connectBlock cfg ev s) s"
      by (simp add: connectBlock_eq sameCounters_def counters)
    then show ?thesis ..
  qed
qed

lemma connectLoaded_shape:
  "sameCounters (connectLoaded cfg ev s) s
   \<or> (\<exists>s0 x. connectLoaded cfg ev s = handleError cfg ev x s0 \<and> sameCounters s0 s)"
proof (cases "state s = Connected \<or> state s = Connecting")
  case True
  then show ?thesis by (simp add: connectLoaded_noop sameCounters_refl)
next
  case False
  let ?s1 = "clearTimers (setState Connecting s)"
  have s1: "sameCounters ?s1 s"
    by (rule sameCounters_trans [OF sameCounters_simple(5)]) (simp add: sameCounters_simple)
  have eq: "connectLoaded cfg ev s = connectBlock cfg ev ?s1"
    using False by (simp add: connectLoaded_def)
  from connectBlock_shape [of cfg ev ?s1] show ?thesis
    unfolding eq using s1 by (blast intro: sameCounters_trans)
qed

lemma connect_shape:
  "(case connect cfg ev s of Inl e \<Rightarrow> s | Inr s' \<Rightarrow> s') = r \<Longrightarrow>
   sameCounters r s \<or> (\<exists>s0 x. r = handleError cfg ev x s0 \<and> sameCounters s0 s)"
proof -
  assume r: "(case connect cfg ev s of Inl e \<Rightarrow> s | Inr s' \<Rightarrow> s') = r"
  have "r = s \<or> r = connectLoaded cfg ev s
        \<or> (\<exists>b. r = connectLoaded cfg ev (s\<lparr>EventSourceClass := b\<rparr>))"
    using r by (auto simp: connect_def split: import_outcome.splits if_splits)
  then show ?thesis
  proof (elim disjE exE)
    assume "r = s"
    then show ?thesis by (simp add: sameCounters_refl)
  next
    assume "r = connectLoaded cfg ev s"
    then show ?thesis using connectLoaded_shape [of cfg ev s] by simp
  next
    fix b
    assume rb: "r = connectLoaded cfg ev (s\<lparr>EventSourceClass := b\<rparr>)"
    have "sameCounters (s\<lparr>EventSourceClass := b\<rparr>) s" by (rule sameCounters_simple)
    with connectLoaded_shape [of cfg ev "s\<lparr>EventSourceClass := b\<rparr>"] show ?thesis
      unfolding rb by (blast intro: sameCounters_trans)
  qed
qed


lemma onopenCallback_shape:
  "sameCounters (onopenCallback cfg ev s) s
   \<or> connectedCount (onopenCallback cfg ev s) = Suc (connectedCount s)"
  by (simp add: onopenCallback_eq sameCounters_def counters)

lemma timerCallback_shape:
  assumes "sameCounters s1 s"
  shows "sameCounters (heartbeatTimerCallback cfg ev s1) s
         \<or> (\<exists>s0 x. heartbeatTimerCallback cfg ev s1 = handleError cfg ev x s0 \<and> sameCounters s0 s)"
    and "sameCounters (connectionTimerCallback cfg ev s1) s
         \<or> (\<exists>s0 x. connectionTimerCallback cfg ev s1 = handleError cfg ev x s0 \<and> sameCounters s0 s)"
    and "sameCounters (reconnectTimerCallback cfg ev s1) s
         \<or> (\<exists>s0 x. reconnectTimerCallback cfg ev s1 = handleError cfg ev x s0 \<and> sameCounters s0 s)"
proof -
  have l1: "sameCounters (log LogHeartbeatTimeout s1) s" "sameCounters (log LogConnectionTimeout s1) s"
    using assms by (auto intro: sameCounters_trans [OF _ assms] simp: sameCounters_simple)
  show "sameCounters (heartbeatTimerCallback cfg ev s1) s
         \<or> (\<exists>s0 x. heartbeatTimerCallback cfg ev s1 = handleError cfg ev x s0 \<and> sameCounters s0 s)"
    using assms l1 unfolding heartbeatTimerCallback_def by (cases "state s1 = Disconnected") auto
  show "sameCounters (connectionTimerCallback cfg ev s1) s
         \<or> (\<exists>s0 x. connectionTimerCallback cfg ev s1 = handleError cfg ev x s0 \<and> sameCounters s0 s)"
    using assms l1 unfolding connectionTimerCallback_def by (cases "state s1 = Disconnected") auto
  show "sameCounters (reconnectTimerCallback cfg ev s1) s
         \<or> (\<exists>s0 x. reconnectTimerCallback cfg ev s1 = handleError cfg ev x s0 \<and> sameCounters s0 s)"
  proof (cases "state s1 = Disconnected")
    case True
    then show ?thesis using assms by (simp add: reconnectTimerCallback_def)
  next
    case False
    then have "reconnectTimerCallback cfg ev s1
                 = (case connect cfg ev s1 of Inl e \<Rightarrow> s1 | Inr s' \<Rightarrow> s')"
      by (simp add: reconnectTimerCallback_def)
    from connect_shape [OF this [symmetric]] show ?thesis
      using assms by (blast intro: sameCounters_trans)
  qed
qed

lemma step_shape:
  "sameCounters (step cfg parse (ev, e) s) s
   \<or> (\<exists>s0 x. step cfg parse (ev, e) s = handleError cfg ev x s0 \<and> sameCounters s0 s)
   \<or> connectedCount (step cfg parse (ev, e) s) = Suc (connectedCount s)"
proof (cases e)
  case CallConnect
  have "(case connect cfg ev s of Inl e \<Rightarrow> s | Inr s' \<Rightarrow> s') = step cfg parse (ev, e) s"
    using CallConnect by simp
  from connect_shape [OF this] show ?thesis by blast
next
  case CallDisconnect
  then show ?thesis by (simp add: sameCounters_simple)
next
  case TransportOpen
  then show ?thesis
    using onopenCallback_shape [of cfg ev s]
    by (auto simp: sameCounters_refl split: option.splits)
next
  case (TransportError x)
  then have "step cfg parse (ev, e) s = s \<or> step cfg parse (ev, e) s = handleError cfg ev x s"
    by (simp add: onerrorCallback_def split: option.splits)
  then show ?thesis using sameCounters_refl by metis
next
  case (TransportEvent name data)
  then have "step cfg parse (ev, e) s = s
             \<or> step cfg parse (ev, e) s = resetHeartbeatMonitor cfg ev s
             \<or> step cfg parse (ev, e) s = handleMessage cfg parse ev data s"
    by (simp split: option.splits)
  then show ?thesis
    using sameCounters_refl [of s] sameCounters_simple(7) [of cfg ev s]
          sameCounters_simple(8) [of cfg parse ev data s]
    by metis
next
  case ReconnectTimerFires
  then have "step cfg parse (ev, e) s = s
             \<or> step cfg parse (ev, e) s = reconnectTimerCallback cfg ev (s\<lparr>reconnectTimer := None\<rparr>)"
    by (simp split: option.splits)
  then show ?thesis
    using sameCounters_refl [of s]
          timerCallback_shape(3) [OF sameCounters_simple(2), of cfg ev None s]
    by metis
next
  case HeartbeatTimerFires
  then have "step cfg parse (ev, e) s = s
             \<or> step cfg parse (ev, e) s = heartbeatTimerCallback cfg ev (s\<lparr>heartbeatTimer := None\<rparr>)"
    by (simp split: option.splits)
  then show ?thesis
    using sameCounters_refl [of s]
          timerCallback_shape(1) [OF sameCounters_simple(3), of cfg ev None s]
    by metis
next
  case ConnectionTimerFires
  then have "step cfg parse (ev, e) s = s
             \<or> step cfg parse (ev, e) s = connectionTimerCallback cfg ev (s\<lparr>connectionTimer := None\<rparr>)"
    by (simp split: option.splits)
  then show ?thesis
    using sameCounters_refl [of s]
          timerCallback_shape(2) [OF sameCounters_simple(4), of cfg ev None s]
    by metis
qed


lemma step_connectedCount_mono: "connectedCount s \<le> connectedCount (step cfg parse x s)"
proof -
  obtain ev e where x: "x = (ev, e)" by (cases x)
  from step_shape [of cfg parse ev e s] show ?thesis
    unfolding x by (auto simp: sameCounters_def handleError_counts)
qed

lemma run_connectedCount_mono: "connectedCount s \<le> connectedCount (run cfg parse xs s)"
proof (induction xs arbitrary: s)
  case Nil
  show ?case by simp
next
  case (Cons x xs)
  have "connectedCount s \<le> connectedCount (step cfg parse x s)"
    by (rule step_connectedCount_mono)
  also have "\<dots> \<le> connectedCount (run cfg parse xs (step cfg parse x s))"
    by (rule Cons.IH)
  finally show ?case by simp
qed

lemma step_failure:
  assumes "connectedCount (step cfg parse x s) = connectedCount s"
  shows "sameCounters (step cfg parse x s) s
         \<or> errorCount (step cfg parse x s) = Suc (errorCount s)
           \<and> (if reconnectAttempts s < MAX_RETRIES cfg
               then reconnectAttempts (step cfg parse x s) = Suc (reconnectAttempts s)
                    \<and> reconnectsScheduled (step cfg parse x s) = Suc (reconnectsScheduled s)
                    \<and> state (step cfg parse x s) = Reconnecting
                    \<and> reconnectTimer (step cfg parse x s) \<noteq> None
               else reconnectAttempts (step cfg parse x s) = reconnectAttempts s
                    \<and> reconnectsScheduled (step cfg parse x s) = reconnectsScheduled s
                    \<and> state (step cfg parse x s) = Fallback
                    \<and> reconnectTimer (step cfg parse x s) = None)
           \<and> heartbeatTimer (step cfg parse x s) = None
           \<and> connectionTimer (step cfg parse x s) = None
           \<and> eventSource (step cfg parse x s) = None"
proof -
  obtain ev e where x: "x = (ev, e)" by (cases x)
  from step_shape [of cfg parse ev e s] assms
  consider "sameCounters (step cfg parse x s) s"
    | s0 y where "step cfg parse x s = handleError cfg ev y s0" "sameCounters s0 s"
    unfolding x by auto
  then show ?thesis
  proof cases
    case 1
    then show ?thesis ..
  next
    case 2
    from 2(2) have "errorCount s0 = errorCount s" "reconnectAttempts s0 = reconnectAttempts s"
      "reconnectsScheduled s0 = reconnectsScheduled s"
      by (simp_all add: sameCounters_def)
    then show ?thesis
      unfolding 2(1) by (simp add: handleError_counts handleError_effect)
  qed
qed

lemma run_counts:
  "connectedCount (run cfg parse xs s) = connectedCount s \<Longrightarrow>
   reconnectAttempts s \<le> MAX_RETRIES cfg \<Longrightarrow>
   \<exists>k. errorCount (run cfg parse xs s) = errorCount s + k
     \<and> reconnectAttempts (run cfg parse xs s) = min (reconnectAttempts s + k) (MAX_RETRIES cfg)
     \<and> reconnectsScheduled (run cfg parse xs s) + reconnectAttempts s
         = reconnectsScheduled s + min (reconnectAttempts s + k) (MAX_RETRIES cfg)"
proof (induction xs arbitrary: s)
  case Nil
  then show ?case by (intro exI [of _ 0]) simp
next
  case (Cons x xs)
  let ?s1 = "step cfg parse x s"
  have "connectedCount s \<le> connectedCount ?s1"
    by (rule step_connectedCount_mono)
  moreover have "connectedCount ?s1 \<le> connectedCount (run cfg parse xs ?s1)"
    by (rule run_connectedCount_mono)
  ultimately have c1: "connectedCount ?s1 = connectedCount s"
    and c2: "connectedCount (run cfg parse xs ?s1) = connectedCount ?s1"
    using Cons.prems(1) by simp_all
  from step_failure [OF c1]
  obtain j where j: "errorCount ?s1 = errorCount s + j"
      "reconnectAttempts ?s1 = min (reconnectAttempts s + j) (MAX_RETRIES cfg)"
      "reconnectsScheduled ?s1 + reconnectAttempts s
         = reconnectsScheduled s + min (reconnectAttempts s + j) (MAX_RETRIES cfg)"
  proof (elim disjE)
    assume "sameCounters ?s1 s"
    then show ?thesis using Cons.prems(2) by (intro that [of 0]) (simp_all add: sameCounters_def)
  next
    assume "errorCount ?s1 = Suc (errorCount s)
           \<and> (if reconnectAttempts s < MAX_RETRIES cfg
               then reconnectAttempts ?s1 = Suc (reconnectAttempts s)
                    \<and> reconnectsScheduled ?s1 = Suc (reconnectsScheduled s)
                    \<and> state ?s1 = Reconnecting
                    \<and> reconnectTimer ?s1 \<noteq> None
               else reconnectAttempts ?s1 = reconnectAttempts s
                    \<and> reconnectsScheduled ?s1 = reconnectsScheduled s
                    \<and> state ?s1 = Fallback
                    \<and> reconnectTimer ?s1 = None)
           \<and> heartbeatTimer ?s1 = None
           \<and> connectionTimer ?s1 = None
           \<and> eventSource ?s1 = None"
    then show ?thesis using Cons.prems(2)
      by (intro that [of 1]) (auto split: if_splits)
  qed
  have le: "reconnectAttempts ?s1 \<le> MAX_RETRIES cfg"
    using j(2) by simp
  from Cons.IH [OF c2 le] obtain k where k:
      "errorCount (run cfg parse xs ?s1) = errorCount ?s1 + k"
      "reconnectAttempts (run cfg parse xs ?s1) = min (reconnectAttempts ?s1 + k) (MAX_RETRIES cfg)"
      "reconnectsScheduled (run cfg parse xs ?s1) + reconnectAttempts ?s1
         = reconnectsScheduled ?s1 + min (reconnectAttempts ?s1 + k) (MAX_RETRIES cfg)"
    by blast
  show ?case
    using j k Cons.prems(2)
    by (intro exI [of _ "j + k"]) (simp add: min_def split: if_splits)
qed


lemma run_snoc: "run cfg parse (xs @ [x]) s = step cfg parse x (run cfg parse xs s)"
  by (induction xs arbitrary: s) simp_all

lemma idle_step:
  assumes "eventSource s = None" and "reconnectTimer s = None" and "heartbeatTimer s = None"
      and "connectionTimer s = None" and "e \<noteq> CallConnect" and "e \<noteq> CallDisconnect"
  shows "step cfg parse (ev, e) s = s"
  using assms by (cases e) simp_all

text \<open>
  The claim that fallback is reached after exactly \<open>MAX_RETRIES\<close> failures fails: with
  \<open>MAX_RETRIES = 2\<close>, a client that has failed twice and never connected is in state
  \<open>reconnecting\<close> with its second reconnect timer pending.
\<close>

theorem fallback_after_max_retries_counterexample:
  "errorCount (run exampleConfig exampleParse failTwice freshClient) = MAX_RETRIES exampleConfig
   \<and> connectedCount (run exampleConfig exampleParse failTwice freshClient) = 0
   \<and> state (run exampleConfig exampleParse failTwice freshClient) = Reconnecting
   \<and> reconnectTimer (run exampleConfig exampleParse failTwice freshClient) = Some 4501"
  by (simp add: failTwice_def freshClient_def PlexEventSource_new_def envAt_def
      exampleConfig_def connect_def connectLoaded_def setState_eq clearTimers_eq
      connectBlock_eq onerrorCallback_def handleError_eq errorMessage_def
      reconnectTimerCallback_def reconnectDelay_def baseDelay_def counters)

text \<open>
  C1 (as amended). Take a run that starts with the attempt counter at zero, in which the
  client never becomes \<open>connected\<close> and the error path runs \<open>k\<close> times. Then the counter
  and the number of reconnect timers scheduled are both \<open>min k MAX_RETRIES\<close>. If the next
  event is a further failure (number \<open>k + 1\<close>): for \<open>k < MAX_RETRIES\<close> the state is
  \<open>reconnecting\<close> with a reconnect timer pending; for \<open>k \<ge> MAX_RETRIES\<close>, so first at
  failure number \<open>MAX_RETRIES + 1\<close>, the state is \<open>fallback\<close>, no timer of any kind is
  pending, exactly \<open>MAX_RETRIES\<close> reconnects have been scheduled, and nothing but a call
  of \<open>connect()\<close> or \<open>disconnect()\<close> changes the client any more.
\<close>

theorem fallback_after_retries_exhausted:
  assumes "reconnectAttempts s = 0"
      and "connectedCount (run cfg parse xs s) = connectedCount s"
      and "errorCount (run cfg parse xs s) = errorCount s + k"
  shows "reconnectAttempts (run cfg parse xs s) = min k (MAX_RETRIES cfg)
         \<and> reconnectsScheduled (run cfg parse xs s) = reconnectsScheduled s + min k (MAX_RETRIES cfg)
         \<and> (errorCount (run cfg parse (xs @ [x]) s) = errorCount s + Suc k
              \<and> connectedCount (run cfg parse (xs @ [x]) s) = connectedCount s \<longrightarrow>
              (k < MAX_RETRIES cfg \<longrightarrow>
                 state (run cfg parse (xs @ [x]) s) = Reconnecting
                 \<and> reconnectTimer (run cfg parse (xs @ [x]) s) \<noteq> None
                 \<and> reconnectsScheduled (run cfg parse (xs @ [x]) s) = reconnectsScheduled s + Suc k)
              \<and> (MAX_RETRIES cfg \<le> k \<longrightarrow>
                 state (run cfg parse (xs @ [x]) s) = Fallback
                 \<and> reconnectTimer (run cfg parse (xs @ [x]) s) = None
                 \<and> heartbeatTimer (run cfg parse (xs @ [x]) s) = None
                 \<and> connectionTimer (run cfg parse (xs @ [x]) s) = None
                 \<and> reconnectsScheduled (run cfg parse (xs @ [x]) s)
                     = reconnectsScheduled s + MAX_RETRIES cfg
                 \<and> (\<forall>ev e. e \<noteq> CallConnect \<and> e \<noteq> CallDisconnect \<longrightarrow>
                       step cfg parse (ev, e) (run cfg parse (xs @ [x]) s)
                         = run cfg parse (xs @ [x]) s)))"
proof -
  let ?r = "run cfg parse xs s"
  from run_counts [OF assms(2), of] assms(1) obtain k' where k':
      "errorCount ?r = errorCount s + k'"
      "reconnectAttempts ?r = min (reconnectAttempts s + k') (MAX_RETRIES cfg)"
      "reconnectsScheduled ?r + reconnectAttempts s
         = reconnectsScheduled s + min (reconnectAttempts s + k') (MAX_RETRIES cfg)"
    by auto
  from k'(1) assms(3) have "k' = k" by simp
  with k' assms(1) have now: "reconnectAttempts ?r = min k (MAX_RETRIES cfg)"
      "reconnectsScheduled ?r = reconnectsScheduled s + min k (MAX_RETRIES cfg)"
    by simp_all
  have next_failure:
    "(k < MAX_RETRIES cfg \<longrightarrow>
        state (step cfg parse x ?r) = Reconnecting
        \<and> reconnectTimer (step cfg parse x ?r) \<noteq> None
        \<and> reconnectsScheduled (step cfg parse x ?r) = reconnectsScheduled s + Suc k)
     \<and> (MAX_RETRIES cfg \<le> k \<longrightarrow>
        state (step cfg parse x ?r) = Fallback
        \<and> reconnectTimer (step cfg parse x ?r) = None
        \<and> heartbeatTimer (step cfg parse x ?r) = None
        \<and> connectionTimer (step cfg parse x ?r) = None
        \<and> eventSource (step cfg parse x ?r) = None
        \<and> reconnectsScheduled (step cfg parse x ?r) = reconnectsScheduled s + MAX_RETRIES cfg)"
    if e: "errorCount (step cfg parse x ?r) = errorCount s + Suc k"
      and c: "connectedCount (step cfg parse x ?r) = connectedCount s"
  proof -
    from c assms(2) have "connectedCount (step cfg parse x ?r) = connectedCount ?r" by simp
    from step_failure [OF this] e assms(3) now show ?thesis
      by (auto simp: sameCounters_def min_def split: if_splits)
  qed
  show ?thesis
    using now next_failure idle_step [of "step cfg parse x ?r" _ cfg parse]
    by (simp add: run_snoc del: step.simps)
qed

lemma thirdTry_eq:
  "run exampleConfig exampleParse thirdTry freshClient =
     freshClient
       \<lparr>EventSourceClass := True,
        eventSource := Some \<lparr>onopen = True, onerror = True,
          listeners = [''message'', ''playing'', ''notification'', ''ping'']\<rparr>,
        state := Connecting, reconnectAttempts := 2, connectionTimer := Some 35000,
        lastError := Some ''Connection error'',
        messageListener := True, playingListener := True,
        notificationListener := True, pingListener := True,
        emitted := [ConnectionStateEv Connecting, ConnectionErrorEv ''Connection error'',
                    ConnectionStateEv Reconnecting, ConnectionStateEv Connecting,
                    ConnectionErrorEv ''Connection error'', ConnectionStateEv Reconnecting,
                    ConnectionStateEv Connecting],
        console := [LogConnecting, LogError ''Connection error'', LogReconnecting 1500 1,
                    LogConnecting, LogError ''Connection error'', LogReconnecting 2500 2,
                    LogConnecting]\<rparr>"
  by (simp add: thirdTry_def failTwice_def freshClient_def PlexEventSource_new_def envAt_def
      exampleConfig_def connect_def connectLoaded_def setState_eq clearTimers_eq
      connectBlock_eq onerrorCallback_def handleError_eq errorMessage_def
      reconnectTimerCallback_def reconnectDelay_def baseDelay_def)

theorem fallback_after_retries_exhausted_witness:
  "MAX_RETRIES exampleConfig = 2
   \<and> state (run exampleConfig exampleParse
              (thirdTry @ [(envAt 5001, TransportError OtherValue)]) freshClient) = Fallback
   \<and> reconnectTimer (run exampleConfig exampleParse
              (thirdTry @ [(envAt 5001, TransportError OtherValue)]) freshClient) = None
   \<and> reconnectsScheduled (run exampleConfig exampleParse
              (thirdTry @ [(envAt 5001, TransportError OtherValue)]) freshClient) = 2
   \<and> errorCount (run exampleConfig exampleParse
              (thirdTry @ [(envAt 5001, TransportError OtherValue)]) freshClient) = 3"
proof -
  have a: "reconnectAttempts freshClient = 0"
    by (simp add: freshClient_def PlexEventSource_new_def)
  have b: "connectedCount (run exampleConfig exampleParse thirdTry freshClient)
             = connectedCount freshClient"
    by (simp add: thirdTry_eq) (simp add: freshClient_def PlexEventSource_new_def counters)
  have c: "errorCount (run exampleConfig exampleParse thirdTry freshClient)
             = errorCount freshClient + 2"
    by (simp add: thirdTry_eq) (simp add: freshClient_def PlexEventSource_new_def counters)
  have d: "errorCount (run exampleConfig exampleParse
              (thirdTry @ [(envAt 5001, TransportError OtherValue)]) freshClient) = 3
           \<and> connectedCount (run exampleConfig exampleParse
              (thirdTry @ [(envAt 5001, TransportError OtherValue)]) freshClient) = 0
           \<and> errorCount freshClient = 0 \<and> connectedCount freshClient = 0
           \<and> reconnectsScheduled freshClient = 0"
    by (simp add: run_snoc thirdTry_eq)
       (simp add: freshClient_def PlexEventSource_new_def counters onerrorCallback_def
          handleError_eq exampleConfig_def)
  show ?thesis
    using fallback_after_retries_exhausted
            [OF a b c, of "(envAt 5001, TransportError OtherValue)"] d
    by (simp add: exampleConfig_def)
qed

section \<open>Heartbeat\<close>

lemma quiet_step:
  assumes "state s = Connected"
      and "eventSource s = Some tr"
      and "listeners tr = [''message'', ''playing'', ''notification'', ''ping'']"
      and "heartbeatTimer s = Some (prev + HEARTBEAT_TIMEOUT_MS cfg)"
      and "connectionTimer s = None" and "reconnectTimer s = None"
      and "now ev - prev < HEARTBEAT_TIMEOUT_MS cfg" and "quietEvent e"
  shows "state (step cfg parse (ev, e) s) = Connected
         \<and> eventSource (step cfg parse (ev, e) s) = Some tr
         \<and> heartbeatTimer (step cfg parse (ev, e) s)
             = Some ((if received e then now ev else prev) + HEARTBEAT_TIMEOUT_MS cfg)
         \<and> connectionTimer (step cfg parse (ev, e) s) = None
         \<and> reconnectTimer (step cfg parse (ev, e) s) = None
         \<and> errorCount (step cfg parse (ev, e) s) = errorCount s
         \<and> reconnectAttempts (step cfg parse (ev, e) s) = reconnectAttempts s"
proof (cases e)
  case (TransportEvent name data)
  with assms(8) consider "name = ''ping''" | "name \<noteq> ''ping''" "name \<in> set (listeners tr)"
      "name = ''message'' \<or> name = ''playing'' \<or> name = ''notification''"
    using assms(3) by auto
  then show ?thesis
  proof cases
    case 1
    with TransportEvent assms show ?thesis
      by (simp add: resetHeartbeatMonitor_def errorCount_def)
  next
    case 2
    then have "step cfg parse (ev, e) s = handleMessage cfg parse ev data s"
      using TransportEvent assms(2) by simp
    with TransportEvent assms show ?thesis
      by (simp add: handleMessage_fields)
  qed
next
  case HeartbeatTimerFires
  with assms show ?thesis by simp
qed (use assms in simp_all)

lemma quiet_run:
  assumes "listeners tr = [''message'', ''playing'', ''notification'', ''ping'']"
  shows "state s = Connected \<Longrightarrow> eventSource s = Some tr \<Longrightarrow>
         heartbeatTimer s = Some (prev + HEARTBEAT_TIMEOUT_MS cfg) \<Longrightarrow>
         connectionTimer s = None \<Longrightarrow> reconnectTimer s = None \<Longrightarrow>
         spacedUnder (HEARTBEAT_TIMEOUT_MS cfg) prev xs \<Longrightarrow>
         state (run cfg parse xs s) = Connected
         \<and> eventSource (run cfg parse xs s) = Some tr
         \<and> errorCount (run cfg parse xs s) = errorCount s
         \<and> reconnectAttempts (run cfg parse xs s) = reconnectAttempts s"
proof (induction xs arbitrary: s prev)
  case Nil
  then show ?case by simp
next
  case (Cons x xs)
  obtain ev e where x: "x = (ev, e)" by (cases x)
  from Cons.prems(6) have t: "now ev - prev < HEARTBEAT_TIMEOUT_MS cfg" and q: "quietEvent e"
    and rest: "spacedUnder (HEARTBEAT_TIMEOUT_MS cfg) (if received e then now ev else prev) xs"
    by (simp_all add: x)
  note st = quiet_step [OF Cons.prems(1,2) assms Cons.prems(3,4,5) t q, of parse]
  from st have
    "state (run cfg parse xs (step cfg parse (ev, e) s)) = Connected
     \<and> eventSource (run cfg parse xs (step cfg parse (ev, e) s)) = Some tr
     \<and> errorCount (run cfg parse xs (step cfg parse (ev, e) s))
         = errorCount (step cfg parse (ev, e) s)
     \<and> reconnectAttempts (run cfg parse xs (step cfg parse (ev, e) s))
         = reconnectAttempts (step cfg parse (ev, e) s)"
    by (intro Cons.IH [OF _ _ _ _ _ rest]) simp_all
  with st show ?case by (simp add: x del: step.simps)
qed


text \<open>
  C8. Take a connected client whose transport carries the listeners \<open>connect\<close> registers
  and whose heartbeat timer is the only pending timer, due one heartbeat timeout after
  \<open>prev\<close>. In a run made of received messages (pings included) and of timers coming up,
  free of transport errors, in which every event comes less than the heartbeat timeout
  after the previous received message, the error path never runs: the client stays
  \<open>connected\<close>, no \<open>connection:error\<close> is emitted and the attempt counter stays. Every
  received ping and every other received message re-arms the heartbeat timer to one
  timeout after its arrival. The heartbeat callback in a state other than \<open>disconnected\<close>
  is the transport's error callback applied to the error "Heartbeat timeout" (after one
  warning line); in state \<open>disconnected\<close> it does nothing.
\<close>

theorem pings_keep_connection_alive:
  assumes "state s = Connected"
      and "eventSource s = Some tr"
      and "listeners tr = [''message'', ''playing'', ''notification'', ''ping'']"
      and "heartbeatTimer s = Some (prev + HEARTBEAT_TIMEOUT_MS cfg)"
      and "connectionTimer s = None" and "reconnectTimer s = None"
      and "spacedUnder (HEARTBEAT_TIMEOUT_MS cfg) prev xs"
  shows "state (run cfg parse xs s) = Connected
         \<and> errorCount (run cfg parse xs s) = errorCount s
         \<and> reconnectAttempts (run cfg parse xs s) = reconnectAttempts s
         \<and> heartbeatTimer (step cfg parse (ev, TransportEvent ''ping'' d) s)
             = Some (now ev + HEARTBEAT_TIMEOUT_MS cfg)
         \<and> heartbeatTimer (resetHeartbeatMonitor cfg ev s') = Some (now ev + HEARTBEAT_TIMEOUT_MS cfg)
         \<and> heartbeatTimer (handleMessage cfg parse ev d s') = Some (now ev + HEARTBEAT_TIMEOUT_MS cfg)
         \<and> (state s' \<noteq> Disconnected \<longrightarrow>
              heartbeatTimerCallback cfg ev s'
                = onerrorCallback cfg ev (ErrorObject ''Heartbeat timeout'') (log LogHeartbeatTimeout s'))
         \<and> (state s' = Disconnected \<longrightarrow> heartbeatTimerCallback cfg ev s' = s')"
proof -
  have "state (run cfg parse xs s) = Connected
         \<and> eventSource (run cfg parse xs s) = Some tr
         \<and> errorCount (run cfg parse xs s) = errorCount s
         \<and> reconnectAttempts (run cfg parse xs s) = reconnectAttempts s"
    using assms(3,1,2,4,5,6,7) by (rule quiet_run)
  moreover have "heartbeatTimer (step cfg parse (ev, TransportEvent ''ping'' d) s)
             = Some (now ev + HEARTBEAT_TIMEOUT_MS cfg)"
    using assms(2,3) by (simp add: resetHeartbeatMonitor_def)
  ultimately show ?thesis
    by (simp add: handleMessage_fields resetHeartbeatMonitor_def heartbeatTimerCallback_def
        onerrorCallback_def del: step.simps)
qed

theorem pings_keep_connection_alive_witness:
  "spacedUnder (HEARTBEAT_TIMEOUT_MS exampleConfig) 5 keepalives
   \<and> heartbeatTimer connectedClient = Some 30005
   \<and> state (run exampleConfig exampleParse keepalives connectedClient) = Connected
   \<and> errorCount (run exampleConfig exampleParse keepalives connectedClient) = 0"
proof -
  have sp: "spacedUnder (HEARTBEAT_TIMEOUT_MS exampleConfig) 5 keepalives"
    by (simp add: keepalives_def exampleConfig_def envAt_def)
  have e0: "errorCount connectedClient = 0"
    by (simp add: connectedClient_eq errorCount_def)
  have hb: "heartbeatTimer connectedClient = Some (5 + HEARTBEAT_TIMEOUT_MS exampleConfig)"
    by (simp add: connectedClient_eq exampleConfig_def)
  show ?thesis
    using pings_keep_connection_alive
            [of connectedClient
                "\<lparr>onopen = True, onerror = True,
                  listeners = [''message'', ''playing'', ''notification'', ''ping'']\<rparr>"
                5 exampleConfig keepalives exampleParse, OF _ _ _ hb _ _ sp]
          sp e0
    by (simp add: connectedClient_eq del: run.simps)
qed

end
